theory Spec2Isabelle
  imports Complex_Main
begin

section \<open>Shared data: tables, exceptions, the external RFM model\<close>

text \<open>
  The scripts read four CSV tables into pandas data frames.  A row of \<open>products.csv\<close> is a
  record with the columns the generator writes; the data frame is the list of its rows in
  file order.  The fields \<open>size\<close> and \<open>unit\<close> of the source carry a suffix here.
\<close>

record product =
  product_id :: int
  product_name :: string
  category :: string
  brand :: string
  size_field :: string
  unit_field :: string
  price_per_unit :: real

text \<open>A Python exception that \<open>except Exception\<close> catches, with its message.\<close>

datatype error = Error string

text \<open>
  What \<open>model.predict(query)\<close> hands back: a data frame whose columns may or may not be
  there (\<open>None\<close> for a missing attribute, which raises AttributeError when read), or the
  value \<open>None\<close> itself.  The model is external, so it is a parameter: a function from the
  query text to an exception or a result.
\<close>

record pred_row =
  delivery_window :: "string option"
  score :: "real option"

record prediction_result =
  TARGET_PRED :: "real list option"
  CLASS :: "int list option"
  pred_rows :: "pred_row list"

type_synonym rfm_model = "string \<Rightarrow> error + prediction_result option"

subsection \<open>Python's \<open>str\<close> on integers, for the query texts\<close>

fun str_nat :: "nat \<Rightarrow> string" where
  "str_nat n = (if n < 10 then [char_of (48 + n)]
                else str_nat (n div 10) @ [char_of (48 + n mod 10)])"

declare str_nat.simps [simp del]

definition str_int :: "int \<Rightarrow> string" where
  "str_int i = (if i < 0 then CHR ''-'' # str_nat (nat (- i)) else str_nat (nat i))"

subsection \<open>Python strings and dictionaries\<close>

text \<open>\<open>str.title()\<close> on ASCII letters: a letter after a non-letter is upper case, else lower.\<close>

definition is_alpha :: "char \<Rightarrow> bool" where
  "is_alpha c = (let n = (of_char c :: nat) in (65 \<le> n \<and> n \<le> 90) \<or> (97 \<le> n \<and> n \<le> 122))"

definition to_upper :: "char \<Rightarrow> char" where
  "to_upper c = (let n = (of_char c :: nat) in if 97 \<le> n \<and> n \<le> 122 then char_of (n - 32) else c)"

definition to_lower :: "char \<Rightarrow> char" where
  "to_lower c = (let n = (of_char c :: nat) in if 65 \<le> n \<and> n \<le> 90 then char_of (n + 32) else c)"

fun title_from :: "bool \<Rightarrow> string \<Rightarrow> string" where
  "title_from after_letter [] = []"
| "title_from after_letter (c # cs) =
     (if is_alpha c then (if after_letter then to_lower c else to_upper c) # title_from True cs
      else c # title_from False cs)"

definition title :: "string \<Rightarrow> string" where
  "title s = title_from False s"

text \<open>\<open>sub in s\<close> on strings.\<close>

fun is_substring :: "string \<Rightarrow> string \<Rightarrow> bool" where
  "is_substring sub [] = (sub = [])"
| "is_substring sub (c # cs) = (take (length sub) (c # cs) = sub \<or> is_substring sub cs)"

text \<open>\<open>s.lower()\<close> on ASCII letters.\<close>

definition lower :: "string \<Rightarrow> string" where
  "lower s = map to_lower s"

text \<open>
  A text is held as its UTF-8 bytes.  Python's white space is, in ASCII, tab to carriage
  return (9 to 13), the four separators 28 to 31 and the blank; beyond ASCII it is U+0085,
  U+00A0 (two bytes each), U+1680, U+2000 to U+200A, U+2028, U+2029, U+202F, U+205F and
  U+3000 (three bytes each).
\<close>

definition is_space :: "char \<Rightarrow> bool" where
  "is_space c = (let n = (of_char c :: nat) in (9 \<le> n \<and> n \<le> 13) \<or> (28 \<le> n \<and> n \<le> 32))"

definition space2 :: "char \<Rightarrow> char \<Rightarrow> bool" where
  "space2 a b = ((of_char a :: nat) = 194 \<and> ((of_char b :: nat) = 133 \<or> (of_char b :: nat) = 160))"

definition space3 :: "char \<Rightarrow> char \<Rightarrow> char \<Rightarrow> bool" where
  "space3 a b c =
     (let x = (of_char a :: nat); y = (of_char b :: nat); z = (of_char c :: nat)
      in (x = 225 \<and> y = 154 \<and> z = 128)
         \<or> (x = 226 \<and> y = 128 \<and> ((128 \<le> z \<and> z \<le> 138) \<or> z = 168 \<or> z = 169 \<or> z = 175))
         \<or> (x = 226 \<and> y = 129 \<and> z = 159)
         \<or> (x = 227 \<and> y = 128 \<and> z = 128))"

text \<open>
  Without the white space at the front; \<open>sp2\<close> and \<open>sp3\<close> recognise the white space of two
  and of three bytes (read backwards when the text is the reverse of one).
\<close>

fun strip_front ::
  "(char \<Rightarrow> char \<Rightarrow> bool) \<Rightarrow> (char \<Rightarrow> char \<Rightarrow> char \<Rightarrow> bool) \<Rightarrow> string \<Rightarrow> string" where
  "strip_front sp2 sp3 (a # b # c # s) =
     (if is_space a then strip_front sp2 sp3 (b # c # s)
      else if sp2 a b then strip_front sp2 sp3 (c # s)
      else if sp3 a b c then strip_front sp2 sp3 s
      else a # b # c # s)"
| "strip_front sp2 sp3 [a, b] =
     (if is_space a then strip_front sp2 sp3 [b] else if sp2 a b then [] else [a, b])"
| "strip_front sp2 sp3 [a] = (if is_space a then [] else [a])"
| "strip_front sp2 sp3 [] = []"

text \<open>\<open>s.strip()\<close>: without the white space at both ends.\<close>

definition strip :: "string \<Rightarrow> string" where
  "strip s =
     rev (strip_front (\<lambda>b a. space2 a b) (\<lambda>c b a. space3 a b c)
            (rev (strip_front space2 space3 s)))"

text \<open>\<open>s.split(c)\<close> for a one-character separator: the pieces between the separators.\<close>

fun split_on :: "char \<Rightarrow> string \<Rightarrow> string list" where
  "split_on c [] = [[]]"
| "split_on c (x # xs) =
     (if x = c then [] # split_on c xs
      else (case split_on c xs of p # ps \<Rightarrow> (x # p) # ps | [] \<Rightarrow> [[x]]))"

text \<open>\<open>s.replace(sub, '')\<close> for a two-character \<open>sub\<close>: every occurrence, from the left.\<close>

fun remove2 :: "char \<Rightarrow> char \<Rightarrow> string \<Rightarrow> string" where
  "remove2 a b (x # y # s) = (if x = a \<and> y = b then remove2 a b s else x # remove2 a b (y # s))"
| "remove2 a b s = s"

text \<open>
  \<open>int(s)\<close> on a text is Python's built-in parser (white space around, a sign, digits of
  any script, underscores between digits); the functions below that call it take it as
  the parameter \<open>to_int\<close>, with \<open>None\<close> for its ValueError.  The digits of ASCII and their
  value serve the test \<open>isdigit\<close> and the reading of sizes in the generator.
\<close>

definition is_digit :: "char \<Rightarrow> bool" where
  "is_digit c = (let n = (of_char c :: nat) in 48 \<le> n \<and> n \<le> 57)"

definition digits_value :: "string \<Rightarrow> nat" where
  "digits_value ds = foldl (\<lambda>a c. 10 * a + (of_char c - 48)) 0 ds"

text \<open>\<open>d[key] = value\<close>: replaces the value of an existing key in place, else appends.\<close>

fun dict_set :: "('k \<times> 'v) list \<Rightarrow> 'k \<Rightarrow> 'v \<Rightarrow> ('k \<times> 'v) list" where
  "dict_set [] k v = [(k, v)]"
| "dict_set ((k', v') # d) k v = (if k' = k then (k, v) # d else (k', v') # dict_set d k v)"

subsection \<open>Row selection \<open>df[df['product_id'] == product_id]\<close> followed by \<open>.iloc[0]\<close>\<close>

definition product_rows :: "product list \<Rightarrow> int \<Rightarrow> product list" where
  "product_rows df pid = filter (\<lambda>p. product_id p = pid) df"

definition lookup_product :: "product list \<Rightarrow> int \<Rightarrow> product option" where
  "lookup_product df pid = (case product_rows df pid of [] \<Rightarrow> None | p # _ \<Rightarrow> Some p)"

section \<open>kumo\_personalized\_ingredients.py: PersonalizedIngredientRanker\<close>

text \<open>
  One entry of the ranking: the columns of the product row and its \<open>kumo_rank\<close>.  The
  entry's \<open>product_id\<close> is \<open>int(product_id)\<close> of the requested id, which is the id of the
  row that the selection found.
\<close>

record ranked =
  entry :: product
  kumo_rank :: nat

text \<open>
  Both classes keep the model in \<open>self.model\<close> (\<open>None\<close> until a graph has been built).  The
  ranker reads \<open>self.products_df\<close> without testing it: \<open>main\<close> exits before the ranking
  when the tables cannot be loaded, so the table is a loaded one here.
\<close>

record kumo_client =
  model :: "rfm_model option"

record PersonalizedIngredientRanker = kumo_client +
  products_df :: "product list"

text \<open>
  The fallback loop \<open>for i, product_id in enumerate(product_ids)\<close>; \<open>i\<close> is the running
  index of \<open>enumerate\<close>.
\<close>

fun fallback_ranking :: "product list \<Rightarrow> nat \<Rightarrow> int list \<Rightarrow> ranked list" where
  "fallback_ranking df i [] = []"
| "fallback_ranking df i (pid # pids) =
     (case lookup_product df pid of
        None \<Rightarrow> fallback_ranking df (i + 1) pids
      | Some p \<Rightarrow> \<lparr>entry = p, kumo_rank = i + 1\<rparr> # fallback_ranking df (i + 1) pids)"

text \<open>The loop over the ids the model ranked: only ids of the request are kept.\<close>

fun kumo_ranking :: "product list \<Rightarrow> int list \<Rightarrow> nat \<Rightarrow> int list \<Rightarrow> ranked list" where
  "kumo_ranking df product_ids i [] = []"
| "kumo_ranking df product_ids i (pid # ranked_product_ids) =
     (if pid \<in> set product_ids then
        (case lookup_product df pid of
           None \<Rightarrow> kumo_ranking df product_ids (i + 1) ranked_product_ids
         | Some p \<Rightarrow> \<lparr>entry = p, kumo_rank = i + 1\<rparr>
                      # kumo_ranking df product_ids (i + 1) ranked_product_ids)
      else kumo_ranking df product_ids (i + 1) ranked_product_ids)"

text \<open>
  The second loop appends the requested ids the model did not rank.  \<open>ranked_ids\<close> is
  computed once, before the loop; the rank of an appended entry is the length of the
  results so far plus one.
\<close>

fun add_missing :: "product list \<Rightarrow> int list \<Rightarrow> ranked list \<Rightarrow> int list \<Rightarrow> ranked list" where
  "add_missing df ranked_ids results [] = results"
| "add_missing df ranked_ids results (pid # pids) =
     (if pid \<notin> set ranked_ids then
        (case lookup_product df pid of
           None \<Rightarrow> add_missing df ranked_ids results pids
         | Some p \<Rightarrow>
             add_missing df ranked_ids
               (results @ [\<lparr>entry = p, kumo_rank = length results + 1\<rparr>]) pids)
      else add_missing df ranked_ids results pids)"

definition ranking_query :: "int list \<Rightarrow> int \<Rightarrow> string" where
  "ranking_query product_ids user_id =
     ''PREDICT LIST_DISTINCT(order_items.product_id, 0, 30, days) RANK TOP ''
       @ str_nat (length product_ids) @ '' FOR users.user_id = '' @ str_int user_id"

definition rank_products_for_user ::
  "bool \<Rightarrow> PersonalizedIngredientRanker \<Rightarrow> int list \<Rightarrow> int \<Rightarrow> ranked list" where
  "rank_products_for_user KUMO_AVAILABLE self product_ids user_id =
     (case model self of
        None \<Rightarrow> fallback_ranking (products_df self) 0 product_ids
      | Some m \<Rightarrow>
          if \<not> KUMO_AVAILABLE then fallback_ranking (products_df self) 0 product_ids
          else
            (case m (ranking_query product_ids user_id) of
               Inl e \<Rightarrow> fallback_ranking (products_df self) 0 product_ids
             | Inr None \<Rightarrow> fallback_ranking (products_df self) 0 product_ids
             | Inr (Some prediction) \<Rightarrow>
                 (case CLASS prediction of
                    None \<Rightarrow> fallback_ranking (products_df self) 0 product_ids
                  | Some ranked_product_ids \<Rightarrow>
                      (let results = kumo_ranking (products_df self) product_ids 0
                                       ranked_product_ids;
                           ranked_ids = map (\<lambda>r. product_id (entry r)) results
                       in add_missing (products_df self) ranked_ids results product_ids))))"

definition result_ids :: "ranked list \<Rightarrow> int list" where
  "result_ids results = map (\<lambda>r. product_id (entry r)) results"

definition table_ids :: "product list \<Rightarrow> int set" where
  "table_ids df = product_id ` set df"

subsection \<open>Concrete rankers used to run the ranking\<close>

definition milk :: product where
  "milk = \<lparr>product_id = 7, product_name = ''Whole Milk'', category = ''Dairy'',
            brand = ''Horizon'', size_field = ''1 gallon'', unit_field = ''gallon'',
            price_per_unit = 4\<rparr>"

definition apples :: product where
  "apples = \<lparr>product_id = 3, product_name = ''Honeycrisp Apples'', category = ''Produce'',
              brand = ''Local Farm'', size_field = ''3 lb'', unit_field = ''lb'',
              price_per_unit = 5\<rparr>"

definition failing_model :: rfm_model where
  "failing_model query = Inl (Error ''connection refused'')"

definition failing_ranker :: PersonalizedIngredientRanker where
  "failing_ranker = \<lparr>model = Some failing_model, products_df = [apples, milk]\<rparr>"

definition apples_prediction :: prediction_result where
  "apples_prediction = \<lparr>TARGET_PRED = None, CLASS = Some [3, 11], pred_rows = []\<rparr>"

definition apples_model :: rfm_model where
  "apples_model query = Inr (Some apples_prediction)"

definition apples_ranker :: PersonalizedIngredientRanker where
  "apples_ranker = \<lparr>model = Some apples_model, products_df = [apples, milk]\<rparr>"

section \<open>kumo\_predictions.py: the substitution rate\<close>

subsection \<open>The order\_items data frame\<close>

text \<open>
  \<open>order_items.csv\<close> is read with whatever columns the file has, and the code asks for a
  column by name, so this frame keeps its column names; a row maps each column name to its
  cell.  Numbers are exact reals here (the source computes with binary floating point).
\<close>

datatype cell = Num real | Bool bool | Str string

type_synonym row = "(string \<times> cell) list"

record frame =
  columns :: "string list"
  rows :: "row list"

text \<open>\<open>df['product_id'] == product_id\<close> on one cell: numbers compare by value, \<open>True == 1\<close>.\<close>

fun cell_eq_int :: "cell option \<Rightarrow> int \<Rightarrow> bool" where
  "cell_eq_int (Some (Num x)) i = (x = real_of_int i)"
| "cell_eq_int (Some (Bool b)) i = ((if b then 1 else 0) = i)"
| "cell_eq_int (Some (Str s)) i = False"
| "cell_eq_int None i = False"

text \<open>\<open>df[df[col] == value]\<close>: KeyError when the frame has no such column.\<close>

definition select_eq :: "frame \<Rightarrow> string \<Rightarrow> int \<Rightarrow> error + frame" where
  "select_eq df col v =
     (if col \<notin> set (columns df) then Inl (Error ''KeyError'')
      else Inr (df\<lparr>rows := filter (\<lambda>r. cell_eq_int (map_of r col) v) (rows df)\<rparr>))"

text \<open>
  \<open>df[col].mean()\<close> on a non-empty selection: the mean of a column of numbers or booleans
  (\<open>True\<close> counts 1); a column holding text raises.
\<close>

fun cell_value :: "cell option \<Rightarrow> real option" where
  "cell_value (Some (Num x)) = Some x"
| "cell_value (Some (Bool b)) = Some (if b then 1 else 0)"
| "cell_value (Some (Str s)) = None"
| "cell_value None = None"

definition column_mean :: "frame \<Rightarrow> string \<Rightarrow> error + real" where
  "column_mean df col =
     (let vs = map (\<lambda>r. cell_value (map_of r col)) (rows df)
      in if None \<in> set vs then Inl (Error ''TypeError'')
         else Inr (sum_list (map the vs) / real (length vs)))"

subsection \<open>Python's \<open>random\<close> module and \<open>round\<close>\<close>

text \<open>
  The generator behind \<open>random\<close> is the library's; it is a parameter: \<open>seed\<close> gives the
  state that \<open>random.seed(n)\<close> installs, \<open>random\<close> draws a number and steps the state.  The
  module's state is global, so every function that draws takes the state and returns it.
\<close>

record 'g pyrandom =
  seed :: "int \<Rightarrow> 'g"
  random :: "'g \<Rightarrow> real \<times> 'g"

text \<open>\<open>random.uniform(a, b)\<close> is \<open>a + (b - a) * random()\<close>.\<close>

definition uniform :: "('g, 'm) pyrandom_scheme \<Rightarrow> real \<Rightarrow> real \<Rightarrow> 'g \<Rightarrow> real \<times> 'g" where
  "uniform R a b g = (case random R g of (u, g') \<Rightarrow> (a + (b - a) * u, g'))"

text \<open>\<open>round(x)\<close> rounds to the nearest integer, a tie to the even one.\<close>

definition py_round :: "real \<Rightarrow> int" where
  "py_round x =
     (let f = \<lfloor>x\<rfloor>; d = x - real_of_int f
      in if d < 1 / 2 then f else if 1 / 2 < d then f + 1
         else if even f then f else f + 1)"

text \<open>\<open>round(x, 3)\<close>.\<close>

definition round3 :: "real \<Rightarrow> real" where
  "round3 x = real_of_int (py_round (x * 1000)) / 1000"

text \<open>\<open>return round(random.uniform(a, b), 3)\<close>.\<close>

definition rounded_uniform :: "('g, 'm) pyrandom_scheme \<Rightarrow> real \<Rightarrow> real \<Rightarrow> 'g \<Rightarrow> real \<times> 'g" where
  "rounded_uniform R a b g = (case uniform R a b g of (x, g') \<Rightarrow> (round3 x, g'))"

text \<open>
  The shape the source repeats with different constants:
  \<^verbatim>\<open>if random.random() < t1: return round(random.uniform(a1, b1), 3)\<close>
  \<^verbatim>\<open>elif random.random() < t2: return round(random.uniform(a2, b2), 3)\<close>
  \<^verbatim>\<open>else: return round(random.uniform(a3, b3), 3)\<close>
  The second test draws a fresh number.
\<close>

definition three_tiers ::
  "('g, 'm) pyrandom_scheme \<Rightarrow> real \<Rightarrow> real \<times> real \<Rightarrow> real \<Rightarrow> real \<times> real \<Rightarrow> real \<times> real \<Rightarrow> 'g
     \<Rightarrow> real \<times> 'g" where
  "three_tiers R t1 r1 t2 r2 r3 g =
     (case random R g of (u1, g1) \<Rightarrow>
        if u1 < t1 then rounded_uniform R (fst r1) (snd r1) g1
        else (case random R g1 of (u2, g2) \<Rightarrow>
                if u2 < t2 then rounded_uniform R (fst r2) (snd r2) g2
                else rounded_uniform R (fst r3) (snd r3) g2))"

text \<open>The two-way shape of the branch for expensive products.\<close>

definition two_tiers ::
  "('g, 'm) pyrandom_scheme \<Rightarrow> real \<Rightarrow> real \<times> real \<Rightarrow> real \<times> real \<Rightarrow> 'g \<Rightarrow> real \<times> 'g" where
  "two_tiers R t1 r1 r2 g =
     (case random R g of (u1, g1) \<Rightarrow>
        if u1 < t1 then rounded_uniform R (fst r1) (snd r1) g1
        else rounded_uniform R (fst r2) (snd r2) g1)"

subsection \<open>SmartGrocerPredictor.get\_product\_substitution\_rate\<close>

record user =
  user_id :: int
  household_size :: int
  dietary_preference :: string
  primary_shopping_day :: string

text \<open>
  The predictor's tables are \<open>None\<close> until \<open>load_csv_data\<close> has run, and its methods test
  for that; \<open>avg_quantities\<close> is the dictionary from product id to average quantity.
\<close>

record SmartGrocerPredictor = kumo_client +
  users_df :: "user list option"
  products_table :: "product list option"
  order_items_df :: "frame option"
  avg_quantities :: "int \<rightharpoonup> int"

text \<open>
  The branch taken when the selection has rows and no column \<open>substituted\<close>: the generator
  is seeded with the product id, then the rate is drawn by the price of the product's row;
  without products table or row, the last \<open>return\<close> draws between 1 and 5 per cent.
\<close>

definition rate_without_column ::
  "('g, 'm) pyrandom_scheme \<Rightarrow> product list option \<Rightarrow> int \<Rightarrow> real \<times> 'g" where
  "rate_without_column R products product_id' =
     (let g = seed R product_id' in
      case products of
        None \<Rightarrow> rounded_uniform R 0.01 0.05 g
      | Some df \<Rightarrow>
          (case lookup_product df product_id' of
             None \<Rightarrow> rounded_uniform R 0.01 0.05 g
           | Some product_row \<Rightarrow>
               (let price = price_per_unit product_row in
                if price > 10 then two_tiers R 0.8 (0.01, 0.06) (0.07, 0.12) g
                else if price > 5 then
                  three_tiers R 0.6 (0.01, 0.07) 0.85 (0.08, 0.18) (0.19, 0.30) g
                else three_tiers R 0.5 (0.01, 0.07) 0.75 (0.08, 0.20) (0.21, 0.40) g)))"

text \<open>
  The body of the \<open>try\<close>: \<open>Inl\<close> is an exception on its way to the handler.  The state of the
  generator comes in as \<open>g\<close> and leaves with the result.
\<close>

definition substitution_rate_body ::
  "('g, 'm) pyrandom_scheme \<Rightarrow> 'a SmartGrocerPredictor_scheme \<Rightarrow> int \<Rightarrow> 'g \<Rightarrow> error + real \<times> 'g" where
  "substitution_rate_body R self product_id' g =
     (case order_items_df self of
        None \<Rightarrow>
          Inr (three_tiers R 0.75 (0.01, 0.06) 0.9 (0.08, 0.15) (0.16, 0.30)
                 (seed R product_id'))
      | Some df \<Rightarrow>
          (case select_eq df ''product_id'' product_id' of
             Inl e \<Rightarrow> Inl e
           | Inr product_orders \<Rightarrow>
               if rows product_orders = [] then
                 Inr (three_tiers R 0.7 (0.01, 0.07) 0.9 (0.08, 0.15) (0.16, 0.35)
                        (seed R product_id'))
               else if ''substituted'' \<in> set (columns product_orders) then
                 (case column_mean product_orders ''substituted'' of
                    Inl e \<Rightarrow> Inl e
                  | Inr substitution_rate \<Rightarrow> Inr (substitution_rate, g))
               else Inr (rate_without_column R (products_table self) product_id')))"

text \<open>The handler \<open>except Exception\<close> seeds again and draws between 1 and 5 per cent.\<close>

definition get_product_substitution_rate ::
  "('g, 'm) pyrandom_scheme \<Rightarrow> 'a SmartGrocerPredictor_scheme \<Rightarrow> int \<Rightarrow> 'g \<Rightarrow> real \<times> 'g" where
  "get_product_substitution_rate R self product_id' g =
     (case substitution_rate_body R self product_id' g of
        Inr result \<Rightarrow> result
      | Inl e \<Rightarrow> rounded_uniform R 0.01 0.05 (seed R product_id'))"

text \<open>
  Whether the rate is the mean of the column \<open>substituted\<close> over the product's rows: the
  table is loaded, has the columns \<open>product_id\<close> and \<open>substituted\<close>, has rows of the product,
  and the mean does not raise.
\<close>

definition from_substituted_column :: "'a SmartGrocerPredictor_scheme \<Rightarrow> int \<Rightarrow> bool" where
  "from_substituted_column self product_id' =
     (case order_items_df self of
        None \<Rightarrow> False
      | Some df \<Rightarrow>
          (case select_eq df ''product_id'' product_id' of
             Inl e \<Rightarrow> False
           | Inr product_orders \<Rightarrow>
               rows product_orders \<noteq> [] \<and> ''substituted'' \<in> set (columns product_orders)
               \<and> (case column_mean product_orders ''substituted'' of
                     Inl e \<Rightarrow> False | Inr m \<Rightarrow> True)))"

text \<open>What a generator must guarantee for \<open>random()\<close>: a number in the interval [0, 1).\<close>

definition unit_interval :: "('g, 'm) pyrandom_scheme \<Rightarrow> bool" where
  "unit_interval R = (\<forall>g. 0 \<le> fst (random R g) \<and> fst (random R g) < 1)"

text \<open>Three decimal places: a whole number of thousandths.\<close>

definition three_decimals :: "real \<Rightarrow> bool" where
  "three_decimals r = (\<exists>k::int. r = real_of_int k / 1000)"

subsection \<open>A concrete generator and predictors to run the code on\<close>

text \<open>A small linear congruential generator standing in for the library's.\<close>

definition lcg :: "nat pyrandom" where
  "lcg = \<lparr>seed = (\<lambda>n. nat \<bar>n\<bar> mod 1000),
          random = (\<lambda>g. (real ((21 * g + 7) mod 1000) / 1000, (21 * g + 7) mod 1000))\<rparr>"

section \<open>kumo\_predictions.py: predictions with their fallbacks\<close>

text \<open>
  An entry of the cart predictions and of the recommendations: the columns of the product
  row, the quantity (cart predictions only), the confidence and the reason.
\<close>

record prediction =
  item :: product
  pred_quantity :: "int option"
  confidence :: real
  reason :: string

text \<open>\<open>df.head(n)\<close> and \<open>xs[:n]\<close>: a negative \<open>n\<close> leaves out the last \<open>-n\<close> elements.\<close>

definition head :: "int \<Rightarrow> 'a list \<Rightarrow> 'a list" where
  "head n xs = (if 0 \<le> n then take (nat n) xs else take (length xs - nat (- n)) xs)"

text \<open>\<open>self.avg_quantities.get(product_id, 1)\<close>.\<close>

definition avg_quantity :: "'a SmartGrocerPredictor_scheme \<Rightarrow> int \<Rightarrow> int" where
  "avg_quantity self pid = (case avg_quantities self pid of None \<Rightarrow> 1 | Some q \<Rightarrow> q)"

text \<open>\<open>users_df[users_df['user_id'] == user_id]\<close>, then \<open>.iloc[0]\<close> unless empty.\<close>

definition lookup_user :: "user list \<Rightarrow> int \<Rightarrow> user option" where
  "lookup_user df uid = (case filter (\<lambda>u. user_id u = uid) df of [] \<Rightarrow> None | u # _ \<Rightarrow> Some u)"

subsection \<open>The fallback heuristics\<close>

text \<open>
  \<open>sort_values('price_per_unit')\<close>, ascending or descending.  The order pandas gives to
  rows of equal price is the library's; the sort is a stable one here.
\<close>

definition sort_by_price :: "bool \<Rightarrow> product list \<Rightarrow> product list" where
  "sort_by_price ascending df =
     (if ascending then sort_key price_per_unit df else sort_key (\<lambda>p. - price_per_unit p) df)"

definition suitable_products :: "string \<Rightarrow> product list \<Rightarrow> product list" where
  "suitable_products dietary_pref df =
     (if dietary_pref = ''vegetarian'' then filter (\<lambda>p. category p = ''Produce'') df else df)"

definition fallback_predictions ::
  "'a SmartGrocerPredictor_scheme \<Rightarrow> int \<Rightarrow> int \<Rightarrow> prediction list" where
  "fallback_predictions self uid num_predictions =
     (case (users_df self, products_table self) of
        (Some users, Some products) \<Rightarrow>
          (case lookup_user users uid of
             None \<Rightarrow> []
           | Some u \<Rightarrow>
               (let dietary_pref = dietary_preference u;
                    suitable = sort_by_price (household_size u > 2)
                                 (suitable_products dietary_pref products)
                in map (\<lambda>p. \<lparr>item = p,
                              pred_quantity = Some (avg_quantity self (product_id p)),
                              confidence = (if dietary_pref = ''vegetarian''
                                              \<and> category p = ''Produce'' then 0.8 else 0.7),
                              reason = ''Enhanced fallback: matches '' @ dietary_pref
                                         @ '' diet, avg quantity from orders''\<rparr>)
                     (head num_predictions suitable)))
      | _ \<Rightarrow> [])"

definition fallback_recommendations ::
  "'a SmartGrocerPredictor_scheme \<Rightarrow> int \<Rightarrow> int \<Rightarrow> prediction list" where
  "fallback_recommendations self uid num_recommendations =
     (case (users_df self, products_table self) of
        (Some users, Some products) \<Rightarrow>
          (case lookup_user users uid of
             None \<Rightarrow> []
           | Some u \<Rightarrow>
               (let dietary_pref = dietary_preference u
                in map (\<lambda>p. \<lparr>item = p, pred_quantity = None, confidence = 0.75,
                              reason = ''Enhanced fallback: suitable for '' @ dietary_pref
                                         @ '' preference''\<rparr>)
                     (head num_recommendations (suitable_products dietary_pref products))))
      | _ \<Rightarrow> [])"

subsection \<open>predict\_cart\_items\<close>

definition quantity_query :: "int \<Rightarrow> string" where
  "quantity_query uid =
     ''PREDICT SUM(order_items.quantity, 0, 10, days) FOR users.user_id = '' @ str_int uid"

definition products_query :: "int \<Rightarrow> int \<Rightarrow> string" where
  "products_query n uid =
     ''PREDICT LIST_DISTINCT(order_items.product_id, 0, 30, days) RANK TOP '' @ str_int n
       @ '' FOR users.user_id = '' @ str_int uid"

text \<open>\<open>int(x)\<close> on a float cuts the fraction off.\<close>

definition int_of_float :: "real \<Rightarrow> int" where
  "int_of_float x = (if 0 \<le> x then \<lfloor>x\<rfloor> else \<lceil>x\<rceil>)"

text \<open>
  The inner \<open>try\<close> with its bare \<open>except\<close>: whatever goes wrong with the quantity query
  (the call raises, the result is \<open>None\<close>, has no \<open>TARGET_PRED\<close> or no value), the number
  of products is 20.
\<close>

definition number_of_products :: "rfm_model \<Rightarrow> int \<Rightarrow> int" where
  "number_of_products m uid =
     (case m (quantity_query uid) of
        Inr (Some quantity_result) \<Rightarrow>
          (case TARGET_PRED quantity_result of
             Some (v # vs) \<Rightarrow> int_of_float v
           | _ \<Rightarrow> 20)
      | _ \<Rightarrow> 20)"

text \<open>
  The loop over the recommended ids.  Reading \<open>self.products_df\<close> raises when the table is
  \<open>None\<close>; ids without a row are left out.
\<close>

fun cart_entries ::
  "'a SmartGrocerPredictor_scheme \<Rightarrow> int list \<Rightarrow> error + prediction list" where
  "cart_entries self [] = Inr []"
| "cart_entries self (pid # pids) =
     (case products_table self of
        None \<Rightarrow> Inl (Error ''TypeError: NoneType object is not subscriptable'')
      | Some df \<Rightarrow>
          (case cart_entries self pids of
             Inl e \<Rightarrow> Inl e
           | Inr rest \<Rightarrow>
               (case lookup_product df pid of
                  None \<Rightarrow> Inr rest
                | Some p \<Rightarrow>
                    Inr (\<lparr>item = p, pred_quantity = Some (avg_quantity self pid),
                          confidence = 0.95,
                          reason = ''Kumo RFM prediction: average quantity ''
                                     @ str_int (avg_quantity self pid)
                                     @ '' based on historical orders''\<rparr> # rest))))"

text \<open>The rest of the outer \<open>try\<close>, once the number of products is known.\<close>

definition cart_from_model ::
  "'a SmartGrocerPredictor_scheme \<Rightarrow> rfm_model \<Rightarrow> int \<Rightarrow> int \<Rightarrow> int \<Rightarrow> error + prediction list" where
  "cart_from_model self m uid num_predictions number_products =
     (case m (products_query (min num_predictions number_products) uid) of
        Inl e \<Rightarrow> Inl e
      | Inr None \<Rightarrow> Inl (Error ''AttributeError'')
      | Inr (Some prediction_result) \<Rightarrow>
          (case CLASS prediction_result of
             None \<Rightarrow> Inl (Error ''AttributeError'')
           | Some recommended_product_ids \<Rightarrow> cart_entries self recommended_product_ids))"

definition predict_cart_items ::
  "bool \<Rightarrow> 'a SmartGrocerPredictor_scheme \<Rightarrow> int \<Rightarrow> int \<Rightarrow> prediction list" where
  "predict_cart_items KUMO_AVAILABLE self uid num_predictions =
     (case model self of
        Some m \<Rightarrow>
          if KUMO_AVAILABLE then
            (case cart_from_model self m uid num_predictions (number_of_products m uid) of
               Inr predictions \<Rightarrow> predictions
             | Inl e \<Rightarrow> fallback_predictions self uid num_predictions)
          else fallback_predictions self uid num_predictions
      | None \<Rightarrow> fallback_predictions self uid num_predictions)"

subsection \<open>predict\_recommendations\<close>

definition recommendations_query :: "int \<Rightarrow> int \<Rightarrow> string" where
  "recommendations_query num_recommendations uid =
     ''PREDICT LIST_DISTINCT(order_items.product_id, 0, 60, days) RANK TOP ''
       @ str_int num_recommendations @ '' FOR users.user_id = '' @ str_int uid"

fun recommendation_entries ::
  "'a SmartGrocerPredictor_scheme \<Rightarrow> int list \<Rightarrow> error + prediction list" where
  "recommendation_entries self [] = Inr []"
| "recommendation_entries self (pid # pids) =
     (case products_table self of
        None \<Rightarrow> Inl (Error ''TypeError: NoneType object is not subscriptable'')
      | Some df \<Rightarrow>
          (case recommendation_entries self pids of
             Inl e \<Rightarrow> Inl e
           | Inr rest \<Rightarrow>
               (case lookup_product df pid of
                  None \<Rightarrow> Inr rest
                | Some p \<Rightarrow>
                    Inr (\<lparr>item = p, pred_quantity = None, confidence = 0.9,
                          reason = ''Kumo RFM recommendation: predicted interest over 60 days''\<rparr>
                         # rest))))"

definition recommendations_from_model ::
  "'a SmartGrocerPredictor_scheme \<Rightarrow> rfm_model \<Rightarrow> int \<Rightarrow> int \<Rightarrow> error + prediction list" where
  "recommendations_from_model self m uid num_recommendations =
     (case m (recommendations_query num_recommendations uid) of
        Inl e \<Rightarrow> Inl e
      | Inr None \<Rightarrow> Inl (Error ''AttributeError'')
      | Inr (Some prediction_result) \<Rightarrow>
          (case CLASS prediction_result of
             None \<Rightarrow> Inl (Error ''AttributeError'')
           | Some recommended_product_ids \<Rightarrow>
               recommendation_entries self recommended_product_ids))"

definition predict_recommendations ::
  "bool \<Rightarrow> 'a SmartGrocerPredictor_scheme \<Rightarrow> int \<Rightarrow> int \<Rightarrow> prediction list" where
  "predict_recommendations KUMO_AVAILABLE self uid num_recommendations =
     (case model self of
        Some m \<Rightarrow>
          if KUMO_AVAILABLE then
            (case recommendations_from_model self m uid num_recommendations of
               Inr recommendations \<Rightarrow> recommendations
             | Inl e \<Rightarrow> fallback_recommendations self uid num_recommendations)
          else fallback_recommendations self uid num_recommendations
      | None \<Rightarrow> fallback_recommendations self uid num_recommendations)"

subsection \<open>predict\_delivery\_times\<close>

text \<open>
  The clock is outside the program: \<open>now\<close> is what \<open>datetime.now()\<close> reads, \<open>now_in tz\<close>
  what \<open>datetime.now(pytz.timezone(tz))\<close> reads, \<open>None\<close> when pytz does not know the zone.
  The module pytz is installed (pandas depends on it), so \<open>import pytz\<close> does not raise.
\<close>

record time_of_day =
  hour :: nat
  minute :: nat

record clock =
  now :: time_of_day
  now_in :: "string \<Rightarrow> time_of_day option"

definition current_time :: "clock \<Rightarrow> string \<Rightarrow> time_of_day" where
  "current_time clk timezone =
     (if timezone \<noteq> ''UTC'' then
        (case now_in clk timezone of Some t \<Rightarrow> t | None \<Rightarrow> now clk)
      else now clk)"

text \<open>
  A delivery slot.  The source renders \<open>full_datetime\<close> as the ISO text of the current
  date and time moved by \<open>days_ahead\<close> days, with the hour replaced by \<open>slot_hour\<close> and the
  minute by 0; the two numbers that determine it are kept here.
\<close>

record slot =
  time_window :: string
  date_label :: string
  days_ahead :: nat
  slot_hour :: nat
  slot_score :: real

text \<open>
  The start hour of a window such as \<open>9am-11am\<close> on the 24-hour clock; \<open>None\<close> is the
  ValueError of \<open>int\<close>.
\<close>

definition start_hour :: "(string \<Rightarrow> int option) \<Rightarrow> string \<Rightarrow> int option" where
  "start_hour to_int window =
     (let start_time_str = strip (hd (split_on CHR ''-'' window));
          digits = remove2 CHR ''a'' CHR ''m'' (remove2 CHR ''p'' CHR ''m'' start_time_str)
      in if is_substring ''pm'' (lower start_time_str) \<and> take 2 start_time_str \<noteq> ''12''
         then map_option (\<lambda>h. h + 12) (to_int digits)
         else if is_substring ''am'' (lower start_time_str) \<and> take 2 start_time_str = ''12''
         then Some 0
         else to_int digits)"

text \<open>
  One slot, or \<open>None\<close> where the source goes on with the next window after a ValueError
  (of \<open>int\<close>, or of \<open>replace(hour=...)\<close> for an hour outside 0..23).
\<close>

definition make_slot ::
  "(string \<Rightarrow> int option) \<Rightarrow> time_of_day \<Rightarrow> string \<Rightarrow> real \<Rightarrow> slot option" where
  "make_slot to_int t window sc =
     (case start_hour to_int window of
        None \<Rightarrow> None
      | Some h \<Rightarrow>
          if h < 0 \<or> 23 < h then None
          else if int (hour t) > h \<or> (int (hour t) = h \<and> minute t \<ge> 30)
          then Some \<lparr>time_window = window, date_label = ''Tomorrow'', days_ahead = 1,
                     slot_hour = nat h, slot_score = sc\<rparr>
          else Some \<lparr>time_window = window, date_label = ''Today'', days_ahead = 0,
                     slot_hour = nat h, slot_score = sc\<rparr>)"

definition default_slots :: "string list" where
  "default_slots = [''9am-11am'', ''11am-1pm'', ''1pm-3pm'', ''3pm-5pm'', ''5pm-7pm'']"

fun fallback_slots ::
  "(string \<Rightarrow> int option) \<Rightarrow> time_of_day \<Rightarrow> nat \<Rightarrow> string list \<Rightarrow> slot list" where
  "fallback_slots to_int t i [] = []"
| "fallback_slots to_int t i (window # windows) =
     (case make_slot to_int t window (0.7 - real i * 0.1) of
        None \<Rightarrow> fallback_slots to_int t (Suc i) windows
      | Some sl \<Rightarrow> sl # fallback_slots to_int t (Suc i) windows)"

definition fallback_delivery_times ::
  "(string \<Rightarrow> int option) \<Rightarrow> clock \<Rightarrow> int \<Rightarrow> int \<Rightarrow> string \<Rightarrow> slot list" where
  "fallback_delivery_times to_int clk uid num_slots timezone =
     fallback_slots to_int (current_time clk timezone) 0 (head num_slots default_slots)"

definition delivery_query :: "int \<Rightarrow> int \<Rightarrow> string" where
  "delivery_query num_slots uid =
     ''PREDICT LIST_DISTINCT(orders.delivery_window, 0, 30, days) RANK TOP '' @ str_int num_slots
       @ '' FOR users.user_id = '' @ str_int uid"

text \<open>
  The loop over the rows of the prediction: a row without window (or with the text
  \<open>nan\<close>) is skipped, a missing score counts 0.5.
\<close>

fun model_slots ::
  "(string \<Rightarrow> int option) \<Rightarrow> time_of_day \<Rightarrow> pred_row list \<Rightarrow> slot list" where
  "model_slots to_int t [] = []"
| "model_slots to_int t (r # rs) =
     (let window = (case delivery_window r of None \<Rightarrow> [] | Some w \<Rightarrow> w) in
      if window = [] \<or> window = ''nan'' then model_slots to_int t rs
      else (case make_slot to_int t window (case score r of None \<Rightarrow> 0.5 | Some x \<Rightarrow> x) of
              None \<Rightarrow> model_slots to_int t rs
            | Some sl \<Rightarrow> sl # model_slots to_int t rs))"

text \<open>
  \<open>processed_slots.sort(key=score, reverse=True)\<close> is stable: slots of equal score keep
  their order.
\<close>

definition predict_delivery_times ::
  "(string \<Rightarrow> int option) \<Rightarrow> bool \<Rightarrow> clock \<Rightarrow> 'a SmartGrocerPredictor_scheme \<Rightarrow> int \<Rightarrow> int
     \<Rightarrow> string \<Rightarrow> slot list" where
  "predict_delivery_times to_int KUMO_AVAILABLE clk self uid num_slots timezone =
     (case model self of
        Some m \<Rightarrow>
          if KUMO_AVAILABLE then
            (case m (delivery_query num_slots uid) of
               Inl e \<Rightarrow> fallback_delivery_times to_int clk uid num_slots timezone
             | Inr None \<Rightarrow> fallback_delivery_times to_int clk uid num_slots timezone
             | Inr (Some prediction_result) \<Rightarrow>
                 if pred_rows prediction_result = []
                 then fallback_delivery_times to_int clk uid num_slots timezone
                 else head num_slots
                        (sort_key (\<lambda>sl. - slot_score sl)
                           (model_slots to_int (current_time clk timezone)
                              (pred_rows prediction_result))))
          else fallback_delivery_times to_int clk uid num_slots timezone
      | None \<Rightarrow> fallback_delivery_times to_int clk uid num_slots timezone)"

section \<open>The command-line entry points\<close>

text \<open>
  What a run meets outside the program: whether the SDK could be imported, the tables
  that \<open>load_csv_data\<close> reads (\<open>None\<close>: reading raises, and the method returns False), the
  model that building the graph yields (\<open>None\<close>: building raises), the clock, the random
  generator, \<open>int\<close> on a text (\<open>None\<close> is ValueError), and \<open>json.loads\<close> on the list of
  product ids (a JSON list of integers, as the annotation \<open>List[int]\<close> says; \<open>None\<close> is
  JSONDecodeError).  \<open>quantities\<close> is the dictionary of average quantities that pandas
  computes from the order items while loading.

  The tables that load have the columns the generator writes: the rows of users and
  products are typed records.  A file that loads with other columns (and so ends in a
  KeyError that nothing catches) is outside this model.
\<close>

record tables =
  users_csv :: "user list"
  products_csv :: "product list"
  order_items_csv :: frame
  quantities :: "int \<rightharpoonup> int"

record 'g environment =
  kumo_available :: bool
  csv_data :: "tables option"
  graph_model :: "rfm_model option"
  clk :: clock
  rng :: "'g pyrandom"
  int_of_text :: "string \<Rightarrow> int option"
  loads_ids :: "string \<Rightarrow> int list option"

text \<open>
  What a run leaves: the values printed to standard output, the messages that \<open>main\<close>
  itself (or the interpreter, for an exception nobody catches) writes to standard error,
  and the exit status.  The progress messages of the methods all carry
  \<open>file=sys.stderr\<close> and are not listed.
\<close>

datatype printed =
    Text string
  | Json_predictions "prediction list"
  | Json_slots "slot list"
  | Json_rates "(int \<times> real) list"
  | Number real
  | Json_ranking "ranked list"

fun is_json :: "printed \<Rightarrow> bool" where
  "is_json (Text s) = False"
| "is_json _ = True"

record run =
  stdout :: "printed list"
  stderr :: "string list"
  exit_status :: nat

text \<open>An exception that nothing catches: the traceback on standard error, status 1.\<close>

definition uncaught :: "string \<Rightarrow> run" where
  "uncaught e = \<lparr>stdout = [], stderr = [''Traceback (most recent call last): '' @ e],
                 exit_status = 1\<rparr>"

subsection \<open>kumo\_predictions.py: main\<close>

definition usage_predictions :: string where
  "usage_predictions =
     ''Usage: python kumo_predictions.py [cart|recommendations] <user_id> [num_items]''"

text \<open>A name between single quotes, as the message below writes the prediction types.\<close>

definition quoted :: "string \<Rightarrow> string" where
  "quoted s = char_of (39::nat) # s @ [char_of (39::nat)]"

definition invalid_prediction_type :: string where
  "invalid_prediction_type =
     ''Invalid prediction type. Use '' @ quoted ''cart'' @ '', '' @ quoted ''recommendations''
       @ '', '' @ quoted ''delivery-times'' @ '', '' @ quoted ''substitution-rate'' @ '', or ''
       @ quoted ''batch-substitution-rates''"

text \<open>
  The arguments after the prediction type: none are read for the batch of substitution
  rates; otherwise \<open>int(sys.argv[2])\<close> and \<open>int(sys.argv[3])\<close> if there is one, else 5.
\<close>

datatype parsed_args = Batch | User int int | Bad

definition parse_args :: "(string \<Rightarrow> int option) \<Rightarrow> string list \<Rightarrow> parsed_args" where
  "parse_args to_int argv =
     (if argv ! 1 = ''batch-substitution-rates'' then Batch
      else (case to_int (argv ! 2) of
              None \<Rightarrow> Bad
            | Some uid \<Rightarrow>
                if length argv > 3 then
                  (case to_int (argv ! 3) of None \<Rightarrow> Bad | Some n \<Rightarrow> User uid n)
                else User uid 5))"

text \<open>
  \<open>[int(pid.strip()) for pid in product_ids_str.split(',')]\<close>; \<open>int\<close> raises for the first
  piece it rejects.
\<close>

fun ints_of :: "(string \<Rightarrow> int option) \<Rightarrow> string list \<Rightarrow> int list option" where
  "ints_of to_int [] = Some []"
| "ints_of to_int (p # ps) =
     (case to_int (strip p) of
        None \<Rightarrow> None
      | Some i \<Rightarrow> (case ints_of to_int ps of None \<Rightarrow> None | Some is \<Rightarrow> Some (i # is)))"

text \<open>The loop that fills the dictionary \<open>batch_rates\<close>; the generator's state is threaded.\<close>

fun batch_rates ::
  "'g pyrandom \<Rightarrow> 'a SmartGrocerPredictor_scheme \<Rightarrow> (int \<times> real) list \<Rightarrow> int list \<Rightarrow> 'g
     \<Rightarrow> (int \<times> real) list" where
  "batch_rates R self rates [] g = rates"
| "batch_rates R self rates (pid # pids) g =
     (case get_product_substitution_rate R self pid g of
        (rate, g') \<Rightarrow> batch_rates R self (dict_set rates pid rate) pids g')"

text \<open>The predictor after \<open>load_csv_data\<close> and \<open>create_kumo_graph\<close>.\<close>

definition loaded_predictor :: "'g environment \<Rightarrow> tables \<Rightarrow> SmartGrocerPredictor" where
  "loaded_predictor env t =
     \<lparr>model = (if kumo_available env then graph_model env else None),
      users_df = Some (users_csv t), products_table = Some (products_csv t),
      order_items_df = Some (order_items_csv t), avg_quantities = quantities t\<rparr>"

definition main_predictions :: "'g environment \<Rightarrow> string list \<Rightarrow> 'g \<Rightarrow> run" where
  "main_predictions env argv g =
     (if length argv < 3 then
        \<lparr>stdout = [Text usage_predictions], stderr = [], exit_status = 1\<rparr>
      else
        (let prediction_type = argv ! 1 in
         case parse_args (int_of_text env) argv of
           Bad \<Rightarrow> uncaught ''ValueError: invalid literal for int()''
         | args \<Rightarrow>
             (case csv_data env of
                None \<Rightarrow> \<lparr>stdout = [], stderr = [''Error loading CSV data''], exit_status = 1\<rparr>
              | Some t \<Rightarrow>
                  (let predictor = loaded_predictor env t in
                   case args of
                     Batch \<Rightarrow>
                       (case ints_of (int_of_text env) (split_on CHR '','' (argv ! 2)) of
                          None \<Rightarrow> uncaught ''ValueError: invalid literal for int()''
                        | Some product_ids \<Rightarrow>
                            \<lparr>stdout = [Json_rates (batch_rates (rng env) predictor [] product_ids g)],
                             stderr = [], exit_status = 0\<rparr>)
                   | User uid num_items \<Rightarrow>
                       if prediction_type = ''cart'' then
                         \<lparr>stdout = [Json_predictions
                                      (predict_cart_items (kumo_available env) predictor uid num_items)],
                          stderr = [], exit_status = 0\<rparr>
                       else if prediction_type = ''recommendations'' then
                         \<lparr>stdout = [Json_predictions
                                      (predict_recommendations (kumo_available env) predictor uid
                                         num_items)],
                          stderr = [], exit_status = 0\<rparr>
                       else if prediction_type = ''delivery-times'' then
                         \<lparr>stdout = [Json_slots
                                      (predict_delivery_times (int_of_text env) (kumo_available env)
                                         (clk env) predictor uid num_items
                                         (if length argv > 4 then argv ! 4 else ''UTC''))],
                          stderr = [], exit_status = 0\<rparr>
                       else if prediction_type = ''substitution-rate'' then
                         \<lparr>stdout = [Number (fst (get_product_substitution_rate (rng env) predictor
                                                    uid g))],
                          stderr = [], exit_status = 0\<rparr>
                       else
                         \<lparr>stdout = [Text invalid_prediction_type], stderr = [], exit_status = 1\<rparr>
                   | Bad \<Rightarrow> uncaught ''ValueError: invalid literal for int()''))))"

subsection \<open>kumo\_personalized\_ingredients.py: main\<close>

definition usage_ingredients :: string where
  "usage_ingredients =
     ''Usage: python kumo_personalized_ingredients.py <product_ids_json> <user_id>''"

definition main_ingredients :: "'g environment \<Rightarrow> string list \<Rightarrow> run" where
  "main_ingredients env argv =
     (if length argv < 3 then
        \<lparr>stdout = [], stderr = [usage_ingredients], exit_status = 1\<rparr>
      else
        (case (loads_ids env (argv ! 1), int_of_text env (argv ! 2)) of
           (Some product_ids, Some uid) \<Rightarrow>
             (case csv_data env of
                None \<Rightarrow> \<lparr>stdout = [], stderr = [''Error loading CSV data''], exit_status = 1\<rparr>
              | Some t \<Rightarrow>
                  (let ranker = \<lparr>model = (if kumo_available env then graph_model env else None),
                                 products_df = products_csv t\<rparr>
                   in \<lparr>stdout = [Json_ranking
                                   (rank_products_for_user (kumo_available env) ranker
                                      product_ids uid)],
                       stderr = [], exit_status = 0\<rparr>))
         | _ \<Rightarrow> \<lparr>stdout = [], stderr = [''Invalid arguments''], exit_status = 1\<rparr>))"



section \<open>grocery\_dataset\_generator.py\<close>

subsection \<open>JSON values and Python dictionaries\<close>

text \<open>
  A product of the generator is a Python dictionary, built from the JSON the completion
  API returned or by the scripted fallback: an association list from key to JSON value, in
  insertion order.
\<close>

datatype json = JNull | JBool bool | JInt int | JFloat real | JStr string
  | JArr "json list" | JObj "(string \<times> json) list"

type_synonym pydict = "(string \<times> json) list"

subsection \<open>What the generator takes from outside\<close>

text \<open>
  Besides \<open>random.seed\<close> and \<open>random.random\<close>: \<open>randbelow n\<close> is the library's draw of an
  index below \<open>n\<close> (behind \<open>random.choice\<close>, \<open>random.sample\<close> and \<open>random.randint\<close>),
  \<open>fake_word\<close> is \<open>fake.word()\<close>, \<open>chat_completion category batch_size\<close> is the call of the
  completion API with the prompt for that category and batch size, giving the stripped
  text of the answer or an exception, and \<open>json_loads\<close> is \<open>json.loads\<close> (\<open>None\<close> for
  JSONDecodeError).  One state \<open>'g\<close> stands for everything these calls change.
\<close>

record 'g generator_env = "'g pyrandom" +
  randbelow :: "nat \<Rightarrow> 'g \<Rightarrow> nat \<times> 'g"
  fake_word :: "'g \<Rightarrow> string \<times> 'g"
  chat_completion :: "string \<Rightarrow> nat \<Rightarrow> 'g \<Rightarrow> (error + string) \<times> 'g"
  json_loads :: "string \<Rightarrow> json option"

text \<open>
  \<open>random.choice(seq)\<close> is \<open>seq[randbelow(len(seq))]\<close>.  The library's index is below the
  length; the index is reduced modulo the length here, which changes nothing for such an
  index.  Every list the generator chooses from is non-empty.
\<close>

definition choice :: "('g, 'm) generator_env_scheme \<Rightarrow> 'a list \<Rightarrow> 'g \<Rightarrow> 'a \<times> 'g" where
  "choice W xs g = (case randbelow W (length xs) g of (k, g') \<Rightarrow> (xs ! (k mod length xs), g'))"

text \<open>\<open>round(x, 2)\<close>.\<close>

definition round2 :: "real \<Rightarrow> real" where
  "round2 x = real_of_int (py_round (x * 100)) / 100"

subsection \<open>generate\_fallback\_batch\<close>

definition brands :: "string \<Rightarrow> string list" where
  "brands category' =
     (if category' = ''Produce'' then [''Fresh Market'', ''Organic Valley'', ''Local Farm'', ''Green Choice'']
      else if category' = ''Dairy'' then [''Horizon'', ''Land O Lakes'', ''Great Value'', ''Organic Valley'']
      else if category' = ''Bakery'' then [''Pepperidge Farm'', ''Wonder'', ''Sara Lee'', ''King Hawaiian'']
      else if category' = ''Meat & Seafood'' then [''Tyson'', ''Perdue'', ''Wild Planet'', ''Oscar Mayer'']
      else if category' = ''Pantry Staples'' then [''Hunt's'', ''Kraft'', ''General Mills'', ''Quaker'']
      else if category' = ''Snacks'' then [''Lay's'', ''Cheetos'', ''Oreo'', ''Nabisco'']
      else if category' = ''Beverages'' then
        [''Coca-Cola'', ''Pepsi'', ''Tropicana'', ''Nestl'' @ [char_of (195::nat), char_of (169::nat)]]
      else if category' = ''Household'' then [''Tide'', ''Charmin'', ''Bounty'', ''Dawn'']
      else [''Generic Brand''])"

text \<open>\<open>[fake.word().title() for _ in range(n)]\<close>.\<close>

fun fake_words :: "('g, 'm) generator_env_scheme \<Rightarrow> nat \<Rightarrow> 'g \<Rightarrow> string list \<times> 'g" where
  "fake_words W 0 g = ([], g)"
| "fake_words W (Suc n) g =
     (case fake_word W g of (w, g1) \<Rightarrow>
        case fake_words W n g1 of (ws, g2) \<Rightarrow> (title w # ws, g2))"

text \<open>
  One round of the loop \<open>for i in range(batch_size)\<close>: the product with id
  \<open>start_id + i\<close>.  The draws happen in the order of the source: brand, then unit (Dairy) or
  the ten words (other categories), name, size, price.
\<close>

definition fallback_product ::
  "('g, 'm) generator_env_scheme \<Rightarrow> string \<Rightarrow> int \<Rightarrow> 'g \<Rightarrow> pydict \<times> 'g" where
  "fallback_product W category' pid g =
     (case choice W (brands category') g of (brand', g1) \<Rightarrow>
      case (if category' = ''Produce'' then
              (([''Apples'', ''Bananas'', ''Carrots'', ''Lettuce'', ''Tomatoes'', ''Potatoes'', ''Onions''],
                [''1 lb'', ''2 lbs'', ''3 lbs'', ''5 lbs''], ''lb'', (1.0, 6.0)), g1)
            else if category' = ''Dairy'' then
              (case choice W [''oz'', ''gallon'', ''count''] g1 of (unit', g2) \<Rightarrow>
                 (([''Milk'', ''Cheese'', ''Yogurt'', ''Butter'', ''Eggs'', ''Cream''],
                   [''16 oz'', ''32 oz'', ''1 gallon'', ''12 count''], unit', (2.0, 8.0)), g2))
            else
              (case fake_words W 10 g1 of (items, g2) \<Rightarrow>
                 ((items, [''12 oz'', ''16 oz'', ''24 oz'', ''32 oz''], ''oz'', (1.5, 12.0)), g2)))
      of ((items, size_options, unit', price_range), g3) \<Rightarrow>
      case choice W items g3 of (name, g4) \<Rightarrow>
      case choice W size_options g4 of (size', g5) \<Rightarrow>
      case uniform W (fst price_range) (snd price_range) g5 of (price, g6) \<Rightarrow>
        ([(''product_id'', JInt pid),
          (''product_name'', JStr (brand' @ '' '' @ name)),
          (''category'', JStr category'),
          (''brand'', JStr brand'),
          (''size'', JStr size'),
          (''unit'', JStr unit'),
          (''price_per_unit'', JFloat (round2 price))], g6))"

fun fallback_loop ::
  "('g, 'm) generator_env_scheme \<Rightarrow> string \<Rightarrow> int \<Rightarrow> nat \<Rightarrow> nat \<Rightarrow> 'g \<Rightarrow> pydict list \<times> 'g" where
  "fallback_loop W category' start_id i 0 g = ([], g)"
| "fallback_loop W category' start_id i (Suc n) g =
     (case fallback_product W category' (start_id + int i) g of (p, g1) \<Rightarrow>
        case fallback_loop W category' start_id (Suc i) n g1 of (ps, g2) \<Rightarrow> (p # ps, g2))"

text \<open>\<open>batch_size\<close> is a number of products, a natural number.\<close>

definition generate_fallback_batch ::
  "('g, 'm) generator_env_scheme \<Rightarrow> string \<Rightarrow> nat \<Rightarrow> int \<Rightarrow> 'g \<Rightarrow> pydict list \<times> 'g" where
  "generate_fallback_batch W category' batch_size start_id g =
     fallback_loop W category' start_id 0 batch_size g"

subsection \<open>generate\_base\_products\_batch\<close>

text \<open>\<open>content[content.find('['):content.rfind(']') + 1]\<close>, given that both occur.\<close>

definition find_index_of :: "char \<Rightarrow> string \<Rightarrow> nat" where
  "find_index_of c s = length (takeWhile (\<lambda>x. x \<noteq> c) s)"

definition rfind_index_of :: "char \<Rightarrow> string \<Rightarrow> nat" where
  "rfind_index_of c s = length s - 1 - length (takeWhile (\<lambda>x. x \<noteq> c) (rev s))"

definition bracket_slice :: "string \<Rightarrow> string" where
  "bracket_slice content =
     (let start = find_index_of CHR ''['' content;
          end' = rfind_index_of CHR '']'' content + 1
      in take (end' - start) (drop start content))"

text \<open>
  The parsing of the answer: the inner \<open>try\<close> with its handler for JSONDecodeError.
  \<open>Inl\<close> is an exception that leaves both.
\<close>

definition parse_batch :: "('g, 'm) generator_env_scheme \<Rightarrow> string \<Rightarrow> error + json" where
  "parse_batch W content =
     (case json_loads W content of
        Some (JObj kvs) \<Rightarrow>
          (case map_of kvs ''products'' of
             Some v \<Rightarrow> Inr v
           | None \<Rightarrow>
               (case kvs of [(k, v)] \<Rightarrow> Inr v | _ \<Rightarrow> Inl (Error ''Unexpected JSON structure'')))
      | Some (JArr xs) \<Rightarrow> Inr (JArr xs)
      | Some _ \<Rightarrow> Inl (Error ''Unexpected JSON structure'')
      | None \<Rightarrow>
          if CHR ''['' \<in> set content \<and> CHR '']'' \<in> set content then
            (case json_loads W (bracket_slice content) of
               Some v \<Rightarrow> Inr v
             | None \<Rightarrow> Inl (Error ''JSONDecodeError''))
          else Inl (Error ''JSONDecodeError''))"

text \<open>What \<open>enumerate(batch_products)\<close> iterates over; a number, a boolean or null raises.\<close>

fun iterate :: "json \<Rightarrow> error + json list" where
  "iterate (JArr xs) = Inr xs"
| "iterate (JObj kvs) = Inr (map (\<lambda>kv. JStr (fst kv)) kvs)"
| "iterate (JStr s) = Inr (map (\<lambda>c. JStr [c]) s)"
| "iterate _ = Inl (Error ''TypeError: object is not iterable'')"

text \<open>\<open>key in product\<close>: a key of a dictionary, a substring of a string, an element of a list.\<close>

fun key_in :: "string \<Rightarrow> json \<Rightarrow> error + bool" where
  "key_in k (JObj kvs) = Inr (k \<in> fst ` set kvs)"
| "key_in k (JStr s) = Inr (is_substring k s)"
| "key_in k (JArr xs) = Inr (JStr k \<in> set xs)"
| "key_in k _ = Inl (Error ''TypeError: argument is not iterable'')"

text \<open>\<open>all(key in product for key in keys)\<close> stops at the first key that is missing.\<close>

fun all_keys_in :: "string list \<Rightarrow> json \<Rightarrow> error + bool" where
  "all_keys_in [] p = Inr True"
| "all_keys_in (k # ks) p =
     (case key_in k p of
        Inl e \<Rightarrow> Inl e
      | Inr False \<Rightarrow> Inr False
      | Inr True \<Rightarrow> all_keys_in ks p)"

definition required_keys :: "string list" where
  "required_keys = [''product_name'', ''brand'', ''size'', ''unit'', ''price_per_unit'']"

text \<open>
  The validation loop \<open>for i, product in enumerate(batch_products)\<close>.  The id of a valid
  product is \<open>start_id + i\<close> with \<open>i\<close> its index among all the products of the answer.  Only
  a dictionary can be assigned to; a string or a list that passes the test raises.
\<close>

fun validate_loop :: "string \<Rightarrow> int \<Rightarrow> nat \<Rightarrow> json list \<Rightarrow> error + pydict list" where
  "validate_loop category' start_id i [] = Inr []"
| "validate_loop category' start_id i (p # ps) =
     (case all_keys_in required_keys p of
        Inl e \<Rightarrow> Inl e
      | Inr False \<Rightarrow> validate_loop category' start_id (Suc i) ps
      | Inr True \<Rightarrow>
          (case p of
             JObj kvs \<Rightarrow>
               (case validate_loop category' start_id (Suc i) ps of
                  Inl e \<Rightarrow> Inl e
                | Inr valid \<Rightarrow>
                    Inr (dict_set (dict_set kvs ''category'' (JStr category'))
                           ''product_id'' (JInt (start_id + int i)) # valid))
           | _ \<Rightarrow> Inl (Error ''TypeError: object does not support item assignment'')))"

text \<open>The body of the outer \<open>try\<close>, after the call of the API returned \<open>content\<close>.\<close>

definition base_products_of_content ::
  "('g, 'm) generator_env_scheme \<Rightarrow> string \<Rightarrow> nat \<Rightarrow> int \<Rightarrow> string \<Rightarrow> error + pydict list" where
  "base_products_of_content W category' batch_size start_id content =
     (case parse_batch W content of
        Inl e \<Rightarrow> Inl e
      | Inr batch_products \<Rightarrow>
          (case iterate batch_products of
             Inl e \<Rightarrow> Inl e
           | Inr products \<Rightarrow>
               (case validate_loop category' start_id 0 products of
                  Inl e \<Rightarrow> Inl e
                | Inr valid_products \<Rightarrow> Inr (take batch_size valid_products))))"

definition generate_base_products_batch ::
  "('g, 'm) generator_env_scheme \<Rightarrow> string \<Rightarrow> nat \<Rightarrow> int \<Rightarrow> 'g \<Rightarrow> pydict list \<times> 'g" where
  "generate_base_products_batch W category' batch_size start_id g =
     (case chat_completion W category' batch_size g of
        (Inl e, g1) \<Rightarrow> generate_fallback_batch W category' batch_size start_id g1
      | (Inr content, g1) \<Rightarrow>
          (case base_products_of_content W category' batch_size start_id content of
             Inl e \<Rightarrow> generate_fallback_batch W category' batch_size start_id g1
           | Inr products \<Rightarrow> (products, g1)))"

text \<open>The id and the category a product dictionary carries.\<close>

definition dict_product_id :: "pydict \<Rightarrow> json option" where
  "dict_product_id p = map_of p ''product_id''"

definition dict_category :: "pydict \<Rightarrow> json option" where
  "dict_category p = map_of p ''category''"

subsection \<open>create\_similar\_product and generate\_similar\_products\<close>

text \<open>
  \<open>random.sample(population, k)\<close> for \<open>k\<close> at most the length, by the library's pool
  method (the one it uses for populations of this size): draw an index below the size of
  the pool, take that element, move the last element of the pool into its place and
  shrink the pool.
\<close>

fun sample :: "('g, 'm) generator_env_scheme \<Rightarrow> 'a list \<Rightarrow> nat \<Rightarrow> 'g \<Rightarrow> 'a list \<times> 'g" where
  "sample W pool 0 g = ([], g)"
| "sample W pool (Suc k) g =
     (if pool = [] then ([], g)
      else (case randbelow W (length pool) g of (j, g1) \<Rightarrow>
              let i = j mod length pool in
              case sample W (butlast (pool[i := last pool])) k g1 of
                (xs, g2) \<Rightarrow> (pool ! i # xs, g2)))"

text \<open>\<open>d[key]\<close>: KeyError when the key is missing.\<close>

definition dict_get :: "pydict \<Rightarrow> string \<Rightarrow> error + json" where
  "dict_get d k = (case map_of d k of None \<Rightarrow> Inl (Error (''KeyError: '' @ k)) | Some v \<Rightarrow> Inr v)"

text \<open>
  \<open>s.split()\<close>: the words between runs of white space.  \<open>blanks\<close> writes a blank for every
  white space of two or three bytes, so that the split sees one kind of white space.
\<close>

fun blanks :: "string \<Rightarrow> string" where
  "blanks (a # b # c # s) =
     (if space2 a b then CHR '' '' # blanks (c # s)
      else if space3 a b c then CHR '' '' # blanks s
      else a # blanks (b # c # s))"
| "blanks [a, b] = (if space2 a b then '' '' else [a, b])"
| "blanks s = s"

fun split_words :: "string \<Rightarrow> string \<Rightarrow> string list" where
  "split_words cur [] = (if cur = [] then [] else [rev cur])"
| "split_words cur (c # cs) =
     (if is_space c then (if cur = [] then split_words [] cs else rev cur # split_words [] cs)
      else split_words (c # cur) cs)"

text \<open>\<open>' '.join(words)\<close>.\<close>

fun join_spaces :: "string list \<Rightarrow> string" where
  "join_spaces [] = []"
| "join_spaces [w] = w"
| "join_spaces (w # ws) = w @ '' '' @ join_spaces ws"

text \<open>
  \<open>float(s)\<close> for a text of digits and dots with at least one digit (what the test
  \<open>s.replace('.', '').isdigit()\<close> lets through): the decimal number, ValueError for more
  than one dot.
\<close>

definition float_of_digits :: "string \<Rightarrow> real option" where
  "float_of_digits s =
     (case split_on CHR ''.'' s of
        [int_part] \<Rightarrow> Some (real (digits_value int_part))
      | [int_part, frac_part] \<Rightarrow>
          Some (real (digits_value int_part) + real (digits_value frac_part) / 10 ^ length frac_part)
      | _ \<Rightarrow> None)"

text \<open>\<open>round(x, 1)\<close>, and the text Python prints for the result (below the size where the
  exponent notation starts).\<close>

definition round1_tenths :: "real \<Rightarrow> int" where
  "round1_tenths x = py_round (x * 10)"

definition format_tenths :: "int \<Rightarrow> string" where
  "format_tenths k = str_int (k div 10) @ ''.'' @ str_nat (nat (k mod 10))"

definition brand_variants :: "string \<Rightarrow> string list option" where
  "brand_variants b =
     (if b = ''Whole Foods'' then Some [''365 Everyday Value'', ''Whole Foods Market'']
      else if b = ''Great Value'' then Some [''Walmart'', ''Equate'']
      else if b = ''Kroger'' then Some [''Simple Truth'', ''Private Selection'']
      else if b = ''Target'' then Some [''Good & Gather'', ''Market Pantry'']
      else if b = ''Safeway'' then Some [''O Organics'', ''Signature Select'']
      else None)"

definition generic_brands :: "string list" where
  "generic_brands = [''Store Brand'', ''Value Brand'', ''Premium Choice'', ''Fresh Select'']"

definition name_modifiers :: "string list" where
  "name_modifiers = [''Premium'', ''Organic'', ''Natural'', ''Fresh'', ''Classic'', ''Original'', ''Extra'']"

text \<open>
  The four modifications, each behind its own draw.  A result is paired with the state
  of the generator; \<open>Inl\<close> is an exception, raised in that state.
\<close>

definition modify_brand ::
  "('g, 'm) generator_env_scheme \<Rightarrow> pydict \<Rightarrow> 'g \<Rightarrow> (error + pydict) \<times> 'g" where
  "modify_brand W similar_product g =
     (case random W g of (u, g1) \<Rightarrow>
        if u < 0.7 then
          (case dict_get similar_product ''brand'' of
             Inl e \<Rightarrow> (Inl e, g1)
           | Inr (JArr xs) \<Rightarrow> (Inl (Error ''TypeError: unhashable type''), g1)
           | Inr (JObj kvs) \<Rightarrow> (Inl (Error ''TypeError: unhashable type''), g1)
           | Inr current_brand \<Rightarrow>
               (case choice W (case current_brand of
                                 JStr b \<Rightarrow> (case brand_variants b of
                                              Some vs \<Rightarrow> vs | None \<Rightarrow> generic_brands)
                               | _ \<Rightarrow> generic_brands) g1 of
                  (b', g2) \<Rightarrow> (Inr (dict_set similar_product ''brand'' (JStr b')), g2)))
        else (Inr similar_product, g1))"

text \<open>
  The size: the leading number of a text such as \<open>16 oz\<close> times a factor between 0.8 and
  1.5, rounded to tenths, kept if above 0.1 (more than one tenth).
\<close>

definition modify_size ::
  "('g, 'm) generator_env_scheme \<Rightarrow> pydict \<Rightarrow> 'g \<Rightarrow> (error + pydict) \<times> 'g" where
  "modify_size W similar_product g =
     (case random W g of (u, g1) \<Rightarrow>
        if u < 0.6 then
          (case dict_get similar_product ''size'' of
             Inl e \<Rightarrow> (Inl e, g1)
           | Inr current_size \<Rightarrow>
               (case dict_get similar_product ''unit'' of
                  Inl e \<Rightarrow> (Inl e, g1)
                | Inr unit' \<Rightarrow>
                    (case current_size of
                       JStr sz \<Rightarrow>
                         (case split_words [] (blanks sz) of
                            [] \<Rightarrow> (Inr similar_product, g1)
                          | first # others \<Rightarrow>
                              if filter (\<lambda>c. c \<noteq> CHR ''.'') first \<noteq> []
                                 \<and> list_all is_digit (filter (\<lambda>c. c \<noteq> CHR ''.'') first)
                              then
                                (case float_of_digits first of
                                   None \<Rightarrow>
                                     (Inl (Error ''ValueError: could not convert string to float''), g1)
                                 | Some current_amount \<Rightarrow>
                                     (case uniform W 0.8 1.5 g1 of (variation_factor, g2) \<Rightarrow>
                                        let new_tenths = round1_tenths (current_amount * variation_factor)
                                        in if new_tenths > 1 then
                                             (Inr (dict_set similar_product ''size''
                                                     (JStr (format_tenths new_tenths @ '' ''
                                                              @ join_spaces others))), g2)
                                           else (Inr similar_product, g2)))
                              else (Inr similar_product, g1))
                     | _ \<Rightarrow> (Inl (Error ''AttributeError: object has no attribute split''), g1))))
        else (Inr similar_product, g1))"

text \<open>\<open>current_price * price_variation\<close>: a number (or a boolean) times a float.\<close>

fun number_of_json :: "json \<Rightarrow> real option" where
  "number_of_json (JInt i) = Some (real_of_int i)"
| "number_of_json (JFloat x) = Some x"
| "number_of_json (JBool b) = Some (if b then 1 else 0)"
| "number_of_json _ = None"

definition modify_price ::
  "('g, 'm) generator_env_scheme \<Rightarrow> pydict \<Rightarrow> 'g \<Rightarrow> (error + pydict) \<times> 'g" where
  "modify_price W similar_product g =
     (case random W g of (u, g1) \<Rightarrow>
        if u < 0.8 then
          (case dict_get similar_product ''price_per_unit'' of
             Inl e \<Rightarrow> (Inl e, g1)
           | Inr current_price \<Rightarrow>
               (case uniform W 0.7 1.3 g1 of (price_variation, g2) \<Rightarrow>
                  case number_of_json current_price of
                    None \<Rightarrow> (Inl (Error ''TypeError: unsupported operand for *''), g2)
                  | Some price \<Rightarrow>
                      (Inr (dict_set similar_product ''price_per_unit''
                              (JFloat (max 0.99 (round2 (price * price_variation))))), g2)))
        else (Inr similar_product, g1))"

definition modify_name ::
  "('g, 'm) generator_env_scheme \<Rightarrow> pydict \<Rightarrow> 'g \<Rightarrow> (error + pydict) \<times> 'g" where
  "modify_name W similar_product g =
     (case random W g of (u, g1) \<Rightarrow>
        if u < 0.3 then
          (case dict_get similar_product ''product_name'' of
             Inl e \<Rightarrow> (Inl e, g1)
           | Inr current_name \<Rightarrow>
               (case choice W name_modifiers g1 of (modifier, g2) \<Rightarrow>
                  case current_name of
                    JStr name \<Rightarrow>
                      if \<not> is_substring (lower modifier) (lower name)
                      then (Inr (dict_set similar_product ''product_name''
                                   (JStr (modifier @ '' '' @ name))), g2)
                      else (Inr similar_product, g2)
                  | _ \<Rightarrow> (Inl (Error ''AttributeError: object has no attribute lower''), g2)))
        else (Inr similar_product, g1))"

text \<open>The copy gets the new id first; the modifications follow in the order of the source.\<close>

definition create_similar_product ::
  "('g, 'm) generator_env_scheme \<Rightarrow> pydict \<Rightarrow> int \<Rightarrow> 'g \<Rightarrow> (error + pydict) \<times> 'g" where
  "create_similar_product W base_product new_id g =
     (case modify_brand W (dict_set base_product ''product_id'' (JInt new_id)) g of
        (Inl e, g1) \<Rightarrow> (Inl e, g1)
      | (Inr p1, g1) \<Rightarrow>
          (case modify_size W p1 g1 of
             (Inl e, g2) \<Rightarrow> (Inl e, g2)
           | (Inr p2, g2) \<Rightarrow>
               (case modify_price W p2 g2 of
                  (Inl e, g3) \<Rightarrow> (Inl e, g3)
                | (Inr p3, g3) \<Rightarrow> modify_name W p3 g3)))"

text \<open>
  The inner loop \<open>for _ in range(num_variants)\<close>: the variants are appended to
  \<open>similar_products\<close>, \<open>current_id\<close> grows by one per variant.
\<close>

fun variants ::
  "('g, 'm) generator_env_scheme \<Rightarrow> pydict \<Rightarrow> int \<Rightarrow> nat \<Rightarrow> pydict list \<Rightarrow> 'g
     \<Rightarrow> (error + pydict list) \<times> 'g" where
  "variants W base_product current_id 0 similar_products g = (Inr similar_products, g)"
| "variants W base_product current_id (Suc n) similar_products g =
     (case create_similar_product W base_product current_id g of
        (Inl e, g1) \<Rightarrow> (Inl e, g1)
      | (Inr similar_product, g1) \<Rightarrow>
          variants W base_product (current_id + 1) n (similar_products @ [similar_product]) g1)"

text \<open>
  The outer loop over the products that get variants.  The substitution map is the
  dictionary from the \<open>product_id\<close> of a base product to the ids of its variants.
\<close>

fun similar_loop ::
  "('g, 'm) generator_env_scheme \<Rightarrow> pydict list \<Rightarrow> int \<Rightarrow> pydict list \<Rightarrow> (json \<times> int list) list
     \<Rightarrow> 'g \<Rightarrow> (error + pydict list \<times> (json \<times> int list) list) \<times> 'g" where
  "similar_loop W [] current_id similar_products substitution_map g =
     (Inr (similar_products, substitution_map), g)"
| "similar_loop W (base_product # others) current_id similar_products substitution_map g =
     (case choice W [1, 2 :: nat] g of (num_variants, g1) \<Rightarrow>
        case variants W base_product current_id num_variants similar_products g1 of
          (Inl e, g2) \<Rightarrow> (Inl e, g2)
        | (Inr similar_products', g2) \<Rightarrow>
            (case dict_get base_product ''product_id'' of
               Inl e \<Rightarrow> (Inl e, g2)
             | Inr base_id \<Rightarrow>
                 similar_loop W others (current_id + int num_variants) similar_products'
                   (dict_set substitution_map base_id
                      (map (\<lambda>k. current_id + int k) [0..<num_variants])) g2))"

definition generate_similar_products ::
  "('g, 'm) generator_env_scheme \<Rightarrow> pydict list \<Rightarrow> int \<Rightarrow> real \<Rightarrow> real \<Rightarrow> 'g
     \<Rightarrow> (error + pydict list \<times> (json \<times> int list) list) \<times> 'g" where
  "generate_similar_products W base_products start_id similar_batch_pct similar_subset_pct g =
     (if base_products = [] then (Inr ([], []), g)
      else
        (let batch_selection_count =
               max 1 (int_of_float (real (length base_products) * similar_batch_pct))
         in case sample W base_products
                   (nat (min batch_selection_count (int (length base_products)))) g of
              (selected_for_similarity, g1) \<Rightarrow>
                let variant_count =
                      max 1 (int_of_float (real (length selected_for_similarity) * similar_subset_pct))
                in case sample W selected_for_similarity
                          (nat (min variant_count (int (length selected_for_similarity)))) g1 of
                     (products_getting_variants, g2) \<Rightarrow>
                       similar_loop W products_getting_variants start_id [] [] g2))"

subsection \<open>generate\_products\_via\_api\<close>

text \<open>\<open>substitution_map.update(new_substitution_map)\<close>.\<close>

definition dict_update :: "('k \<times> 'v) list \<Rightarrow> ('k \<times> 'v) list \<Rightarrow> ('k \<times> 'v) list" where
  "dict_update d new = foldl (\<lambda>acc kv. dict_set acc (fst kv) (snd kv)) d new"

text \<open>
  What the loops carry along: the products of the category so far, the substitution map,
  the id counter and the state of the generator.
\<close>

record 'g progress =
  category_products :: "pydict list"
  substitution_map :: "(json \<times> int list) list"
  product_id_counter :: int
  world :: 'g

text \<open>
  The body of the \<open>try\<close> of one batch with its handler.  The base products are added and
  the counter is advanced by their number before the similar products are generated; if
  that raises, the handler adds a fallback batch at the advanced counter.
\<close>

definition batch_step ::
  "('g, 'm) generator_env_scheme \<Rightarrow> string \<Rightarrow> nat \<Rightarrow> real \<Rightarrow> real \<Rightarrow> 'g progress \<Rightarrow> 'g progress" where
  "batch_step W category' current_batch_size similar_batch_pct similar_subset_pct st =
     (case generate_base_products_batch W category' current_batch_size (product_id_counter st)
             (world st) of
        (base_products, g1) \<Rightarrow>
          if base_products = [] then st\<lparr>world := g1\<rparr>
          else
            (let st1 = st\<lparr>category_products := category_products st @ base_products,
                          product_id_counter := product_id_counter st + int (length base_products),
                          world := g1\<rparr>
             in case generate_similar_products W base_products (product_id_counter st1)
                       similar_batch_pct similar_subset_pct g1 of
                  (Inr (similar_products, new_substitution_map), g2) \<Rightarrow>
                    if similar_products \<noteq> [] then
                      st1\<lparr>category_products := category_products st1 @ similar_products,
                          substitution_map := dict_update (substitution_map st1) new_substitution_map,
                          product_id_counter :=
                            product_id_counter st1 + int (length similar_products),
                          world := g2\<rparr>
                    else st1\<lparr>world := g2\<rparr>
                | (Inl e, g2) \<Rightarrow>
                    (case generate_fallback_batch W category' current_batch_size
                            (product_id_counter st1) g2 of
                       (fallback_products, g3) \<Rightarrow>
                         st1\<lparr>category_products := category_products st1 @ fallback_products,
                             product_id_counter :=
                               product_id_counter st1 + int (length fallback_products),
                             world := g3\<rparr>)))"

text \<open>
  \<open>for batch_start in range(0, products_per_category, batch_size)\<close>: \<open>n\<close> counts the
  rounds that are left; the loop breaks when the category is full.
\<close>

fun batch_loop ::
  "('g, 'm) generator_env_scheme \<Rightarrow> string \<Rightarrow> nat \<Rightarrow> nat \<Rightarrow> real \<Rightarrow> real \<Rightarrow> nat \<Rightarrow> 'g progress
     \<Rightarrow> 'g progress" where
  "batch_loop W category' products_per_category batch_size pct1 pct2 0 st = st"
| "batch_loop W category' products_per_category batch_size pct1 pct2 (Suc n) st =
     (let remaining_in_category = int products_per_category - int (length (category_products st));
          current_batch_size = min (int batch_size) remaining_in_category
      in if current_batch_size \<le> 0 then st
         else batch_loop W category' products_per_category batch_size pct1 pct2 n
                (batch_step W category' (nat current_batch_size) pct1 pct2 st))"

definition categories :: "string list" where
  "categories = [''Produce'', ''Dairy'', ''Bakery'', ''Meat & Seafood'', ''Pantry Staples'',
                  ''Snacks'', ''Beverages'', ''Household'']"

text \<open>
  The loop over the categories: each starts with an empty list of its own, and its
  products are added to \<open>all_products\<close>.
\<close>

fun category_loop ::
  "('g, 'm) generator_env_scheme \<Rightarrow> nat \<Rightarrow> nat \<Rightarrow> real \<Rightarrow> real \<Rightarrow> string list \<Rightarrow> pydict list
     \<Rightarrow> 'g progress \<Rightarrow> pydict list \<times> 'g progress" where
  "category_loop W products_per_category batch_size pct1 pct2 [] all_products st =
     (all_products, st)"
| "category_loop W products_per_category batch_size pct1 pct2 (category' # cs) all_products st =
     (let st' = batch_loop W category' products_per_category batch_size pct1 pct2
                  ((products_per_category + batch_size - 1) div batch_size)
                  (st\<lparr>category_products := []\<rparr>)
      in category_loop W products_per_category batch_size pct1 pct2 cs
           (all_products @ category_products st') st')"

text \<open>
  The products in the order of the data frame, and the substitution map.  \<open>batch_size\<close> is
  positive (\<open>range\<close> raises for a step of zero).
\<close>

definition generate_products_via_api ::
  "('g, 'm) generator_env_scheme \<Rightarrow> nat \<Rightarrow> nat \<Rightarrow> real \<Rightarrow> real \<Rightarrow> 'g
     \<Rightarrow> (pydict list \<times> (json \<times> int list) list) \<times> 'g" where
  "generate_products_via_api W products_per_category batch_size similar_batch_pct
       similar_subset_pct g =
     (case category_loop W products_per_category batch_size similar_batch_pct similar_subset_pct
             categories []
             \<lparr>category_products = [], substitution_map = [], product_id_counter = 1, world = g\<rparr> of
        (all_products, st) \<Rightarrow> ((all_products, substitution_map st), world st))"

subsection \<open>An environment whose completion API answers with a product that lacks a key\<close>

text \<open>
  For the category Produce the API answers with two products, the first without
  \<open>brand\<close>; for the other categories it is out of reach.  Every draw of \<open>random()\<close> is
  0.9 and every index drawn is 0.
\<close>

definition flawed_answer :: json where
  "flawed_answer =
     JArr [JObj [(''product_name'', JStr ''Fresh Organic Bananas''), (''size'', JStr ''1 lb''),
                 (''unit'', JStr ''lb''), (''price_per_unit'', JFloat 1.99)],
           JObj [(''product_name'', JStr ''Honeycrisp Apples''), (''brand'', JStr ''Local Farm''),
                 (''size'', JStr ''3 lb''), (''unit'', JStr ''lb''),
                 (''price_per_unit'', JFloat 4.99)]]"

definition flawed_env :: "nat generator_env" where
  "flawed_env =
     \<lparr>seed = (\<lambda>n. 0), random = (\<lambda>g. (0.9, g)),
      randbelow = (\<lambda>n g. (0, g)),
      fake_word = (\<lambda>g. (''salt'', g)),
      chat_completion = (\<lambda>category' batch_size g.
         if category' = ''Produce'' then (Inr ''<answer>'', g)
         else (Inl (Error ''Connection error.''), g)),
      json_loads = (\<lambda>content. if content = ''<answer>'' then Some flawed_answer else None)\<rparr>"

subsection \<open>generate\_order\_items: one order item, and the data frame of all of them\<close>

record order_item =
  order_id :: int
  item_product_id :: int
  quantity :: int
  was_substituted :: bool

text \<open>\<open>random.randint(a, b)\<close> is \<open>a + randbelow(b - a + 1)\<close>.\<close>

definition randint :: "('g, 'm) generator_env_scheme \<Rightarrow> int \<Rightarrow> int \<Rightarrow> 'g \<Rightarrow> int \<times> 'g" where
  "randint W a b g =
     (case randbelow W (nat (b - a + 1)) g of
        (k, g') \<Rightarrow> (a + int (k mod nat (b - a + 1)), g'))"

text \<open>\<open>products_df[products_df['product_id'] == product_id].iloc[0]\<close>: IndexError without row.\<close>

definition product_info_of :: "pydict list \<Rightarrow> int \<Rightarrow> error + pydict" where
  "product_info_of products pid =
     (case filter (\<lambda>p. dict_product_id p = Some (JInt pid)) products of
        [] \<Rightarrow> Inl (Error ''IndexError'')
      | p # _ \<Rightarrow> Inr p)"

text \<open>
  The body of \<open>for product_id in selected_products\<close>: the quantity, the substitution (with
  the substitution map, the dictionary from a product id to the ids of its variants) and
  the dictionary that is appended, with the key \<open>product_id\<close> holding the id after the
  substitution.
\<close>

definition order_item_for ::
  "('g, 'm) generator_env_scheme \<Rightarrow> pydict list \<Rightarrow> (json \<times> int list) list \<Rightarrow> int \<Rightarrow> int \<Rightarrow> int
     \<Rightarrow> 'g \<Rightarrow> error + order_item \<times> 'g" where
  "order_item_for W products smap household_size' order_id' pid g =
     (case (if household_size' > 2 then
              (case random W g of (u, g') \<Rightarrow>
                 if u < 0.4 then randint W 2 household_size' g' else (1, g'))
            else (1, g))
      of (base_quantity, g1) \<Rightarrow>
      case product_info_of products pid of
        Inl e \<Rightarrow> Inl e
      | Inr product_info \<Rightarrow>
          (case (if dict_category product_info \<in> {Some (JStr ''Produce''), Some (JStr ''Snacks'')} then
                   (case random W g1 of (u, g') \<Rightarrow>
                      if u < 0.3 then
                        (case randint W 1 2 g' of (extra, g'') \<Rightarrow> (base_quantity + extra, g''))
                      else (base_quantity, g'))
                 else (base_quantity, g1))
           of (quantity', g2) \<Rightarrow>
           case random W g2 of (u, g3) \<Rightarrow>
             if u < 0.05 then
               (case map_of smap (JInt pid) of
                  Some (v # vs) \<Rightarrow>
                    (case choice W (v # vs) g3 of (substitute_id, g4) \<Rightarrow>
                       Inr (\<lparr>order_id = order_id', item_product_id = substitute_id,
                             quantity = quantity', was_substituted = True\<rparr>, g4))
                | _ \<Rightarrow>
                    Inr (\<lparr>order_id = order_id', item_product_id = pid,
                          quantity = quantity', was_substituted = True\<rparr>, g3))
             else Inr (\<lparr>order_id = order_id', item_product_id = pid,
                         quantity = quantity', was_substituted = False\<rparr>, g3)))"

text \<open>
  \<open>pd.DataFrame(order_items)\<close>: the columns are the keys of the dictionaries in the order
  they were written, one row per dictionary; a frame of no dictionaries has no columns.
  \<open>to_csv\<close> writes these column names as the header line and \<open>read_csv\<close> reads them back.
\<close>

definition order_item_row :: "order_item \<Rightarrow> row" where
  "order_item_row it =
     [(''order_id'', Num (real_of_int (order_id it))),
      (''product_id'', Num (real_of_int (item_product_id it))),
      (''quantity'', Num (real_of_int (quantity it))),
      (''was_substituted'', Bool (was_substituted it))]"

definition order_items_frame :: "order_item list \<Rightarrow> frame" where
  "order_items_frame order_items =
     \<lparr>columns = (if order_items = [] then []
                 else [''order_id'', ''product_id'', ''quantity'', ''was_substituted'']),
      rows = map order_item_row order_items\<rparr>"

subsection \<open>Concrete inputs for the generator and for the predictor on generated data\<close>

text \<open>An environment whose completion API is out of reach.\<close>

definition offline_env :: "nat generator_env" where
  "offline_env =
     \<lparr>seed = (\<lambda>n. nat \<bar>n\<bar> mod 1000),
      random = (\<lambda>g. (real ((21 * g + 7) mod 1000) / 1000, (21 * g + 7) mod 1000)),
      randbelow = (\<lambda>n g. ((21 * g + 7) mod 1000, (21 * g + 7) mod 1000)),
      fake_word = (\<lambda>g. (''salt'', g)),
      chat_completion = (\<lambda>category' batch_size g. (Inl (Error ''Connection error.''), g)),
      json_loads = (\<lambda>content. None)\<rparr>"

definition demo_order_items :: frame where
  "demo_order_items =
     order_items_frame
       [\<lparr>order_id = 1, item_product_id = 7, quantity = 2, was_substituted = False\<rparr>,
        \<lparr>order_id = 2, item_product_id = 7, quantity = 1, was_substituted = True\<rparr>]"

definition demo_predictor :: SmartGrocerPredictor where
  "demo_predictor =
     \<lparr>model = None, users_df = None, products_table = Some [apples, milk],
      order_items_df = Some demo_order_items, avg_quantities = Map.empty\<rparr>"

subsection \<open>Concrete predictors and environments for the prediction scripts\<close>

definition shopper :: user where
  "shopper = \<lparr>user_id = 42, household_size = 2, dietary_preference = ''none'',
               primary_shopping_day = ''Saturday''\<rparr>"

text \<open>A model whose quantity query times out and whose ranking queries answer.\<close>

definition quantity_failing_model :: rfm_model where
  "quantity_failing_model query =
     (if take 11 query = ''PREDICT SUM'' then Inl (Error ''Request timed out'')
      else Inr (Some apples_prediction))"

definition cart_predictor :: SmartGrocerPredictor where
  "cart_predictor =
     \<lparr>model = Some quantity_failing_model, users_df = Some [shopper],
      products_table = Some [apples, milk], order_items_df = None,
      avg_quantities = Map.empty\<rparr>"

definition offline_predictor :: SmartGrocerPredictor where
  "offline_predictor =
     \<lparr>model = Some failing_model, users_df = Some [shopper],
      products_table = Some [apples, milk], order_items_df = None,
      avg_quantities = Map.empty\<rparr>"

definition noon :: clock where
  "noon = \<lparr>now = \<lparr>hour = 12, minute = 0\<rparr>, now_in = (\<lambda>tz. None)\<rparr>"

text \<open>
  An environment without the CSV files, and one that has them.  Of \<open>int\<close> and
  \<open>json.loads\<close> the runs below use one value each: \<open>int('42')\<close> is 42 and
  \<open>json.loads('[7, 3]')\<close> is the list of 7 and 3.
\<close>

definition int_at_42 :: "string \<Rightarrow> int option" where
  "int_at_42 s = (if s = ''42'' then Some 42 else None)"


definition demo_tables :: tables where
  "demo_tables =
     \<lparr>users_csv = [shopper], products_csv = [apples, milk],
      order_items_csv = demo_order_items, quantities = Map.empty\<rparr>"

definition demo_env :: "nat environment" where
  "demo_env =
     \<lparr>kumo_available = False, csv_data = Some demo_tables, graph_model = None, clk = noon,
      rng = lcg, int_of_text = int_at_42,
      loads_ids = (\<lambda>s. if s = ''[7, 3]'' then Some [7, 3] else None)\<rparr>"

text \<open>
  The numbers a generator yields one after the other from the state \<open>g\<close>: \<open>draw R g 0\<close> is
  the first call of \<open>random()\<close>, \<open>draw R g 1\<close> the second, and so on.
\<close>

fun draw :: "('g, 'm) pyrandom_scheme \<Rightarrow> 'g \<Rightarrow> nat \<Rightarrow> real" where
  "draw R g 0 = fst (random R g)"
| "draw R g (Suc k) = draw R (snd (random R g)) k"

text \<open>The product ids of a list of predictions.\<close>

definition prediction_ids :: "prediction list \<Rightarrow> int list" where
  "prediction_ids predictions = map (\<lambda>p. product_id (item p)) predictions"

text \<open>A rate between 1 and 40 per cent with three decimal places.\<close>

definition rate_ok :: "real \<Rightarrow> bool" where
  "rate_ok r = (1 / 100 \<le> r \<and> r \<le> 40 / 100 \<and> three_decimals r)"

section \<open>Properties of the ingredient ranking\<close>

lemma lookup_product_None_iff:
  "lookup_product df pid = None \<longleftrightarrow> pid \<notin> table_ids df"
proof -
  have "lookup_product df pid = None \<longleftrightarrow> filter (\<lambda>p. product_id p = pid) df = []"
    by (simp add: lookup_product_def product_rows_def split: list.splits)
  also have "\<dots> \<longleftrightarrow> pid \<notin> table_ids df"
    by (auto simp: filter_empty_conv table_ids_def)
  finally show ?thesis .
qed

lemma lookup_product_Some_iff:
  "(\<exists>p. lookup_product df pid = Some p) \<longleftrightarrow> pid \<in> table_ids df"
  using lookup_product_None_iff [of df pid] by auto

lemma lookup_product_id:
  assumes "lookup_product df pid = Some p"
  shows "product_id p = pid \<and> p \<in> set df"
proof -
  obtain ps where "filter (\<lambda>p. product_id p = pid) df = p # ps"
    using assms by (auto simp: lookup_product_def product_rows_def split: list.splits)
  then have "p \<in> set (filter (\<lambda>p. product_id p = pid) df)" by simp
  then show ?thesis by simp
qed

lemma fallback_ranking_enumerate:
  "fallback_ranking df i pids =
     map (\<lambda>(k, pid). \<lparr>entry = the (lookup_product df pid), kumo_rank = k + 1\<rparr>)
       (filter (\<lambda>(k, pid). pid \<in> table_ids df) (enumerate i pids))"
proof (induction pids arbitrary: i)
  case Nil
  show ?case by simp
next
  case (Cons pid pids)
  show ?case
  proof (cases "lookup_product df pid")
    case None
    then have "pid \<notin> table_ids df" by (simp add: lookup_product_None_iff)
    then show ?thesis using None Cons [of "i + 1"] by simp
  next
    case (Some p)
    then have "pid \<in> table_ids df" using lookup_product_Some_iff by blast
    then show ?thesis using Some Cons [of "i + 1"] by simp
  qed
qed

lemma fallback_ranking_ids:
  "result_ids (fallback_ranking df i pids) = filter (\<lambda>pid. pid \<in> table_ids df) pids"
proof (induction pids arbitrary: i)
  case Nil
  show ?case by (simp add: result_ids_def)
next
  case (Cons pid pids)
  show ?case
  proof (cases "lookup_product df pid")
    case None
    then have "pid \<notin> table_ids df" by (simp add: lookup_product_None_iff)
    then show ?thesis using None Cons [of "i + 1"] by (simp add: result_ids_def)
  next
    case (Some p)
    then have "pid \<in> table_ids df" using lookup_product_Some_iff by blast
    then show ?thesis
      using Some Cons [of "i + 1"] lookup_product_id [OF Some] by (simp add: result_ids_def)
  qed
qed

lemma fallback_ranking_rank:
  "r \<in> set (fallback_ranking df i pids) \<Longrightarrow>
     i < kumo_rank r \<and> kumo_rank r \<le> i + length pids \<and>
     pids ! (kumo_rank r - 1 - i) = product_id (entry r) \<and>
     lookup_product df (product_id (entry r)) = Some (entry r)"
proof (induction pids arbitrary: i)
  case Nil
  then show ?case by simp
next
  case (Cons pid pids)
  show ?case
  proof (cases "r \<in> set (fallback_ranking df (i + 1) pids)")
    case True
    from Cons.IH [OF True]
    have a: "i + 1 < kumo_rank r" "kumo_rank r \<le> i + 1 + length pids"
      "pids ! (kumo_rank r - 1 - (i + 1)) = product_id (entry r)"
      "lookup_product df (product_id (entry r)) = Some (entry r)" by auto
    have "kumo_rank r - 1 - i = Suc (kumo_rank r - 1 - (i + 1))" using a(1) by arith
    then show ?thesis using a by simp
  next
    case False
    with Cons.prems obtain p
      where p: "lookup_product df pid = Some p" "r = \<lparr>entry = p, kumo_rank = i + 1\<rparr>"
      by (auto split: option.splits)
    then show ?thesis using lookup_product_id [OF p(1)] by simp
  qed
qed

lemma fallback_ranking_sorted:
  "sorted_wrt (<) (map kumo_rank (fallback_ranking df i pids))"
proof (induction pids arbitrary: i)
  case Nil
  show ?case by simp
next
  case (Cons pid pids)
  have "\<forall>r \<in> set (fallback_ranking df (i + 1) pids). i + 1 < kumo_rank r"
    using fallback_ranking_rank by blast
  then show ?case using Cons [of "i + 1"] by (auto split: option.splits)
qed

lemma rank_products_fallback:
  assumes "model self = None \<or> \<not> KUMO_AVAILABLE
           \<or> (\<exists>m e. model self = Some m \<and> m (ranking_query product_ids uid) = Inl e)"
  shows "rank_products_for_user KUMO_AVAILABLE self product_ids uid =
           fallback_ranking (products_df self) 0 product_ids"
  using assms by (auto simp: rank_products_for_user_def split: option.splits)

lemma kumo_ranking_ids:
  "result_ids (kumo_ranking df product_ids i ranked_product_ids) =
     filter (\<lambda>pid. pid \<in> set product_ids \<and> pid \<in> table_ids df) ranked_product_ids"
proof (induction ranked_product_ids arbitrary: i)
  case Nil
  show ?case by (simp add: result_ids_def)
next
  case (Cons pid rest)
  show ?case
  proof (cases "lookup_product df pid")
    case None
    then have "pid \<notin> table_ids df" by (simp add: lookup_product_None_iff)
    then show ?thesis using None Cons [of "i + 1"] by (simp add: result_ids_def)
  next
    case (Some p)
    then have "pid \<in> table_ids df" using lookup_product_Some_iff by blast
    then show ?thesis
      using Some Cons [of "i + 1"] lookup_product_id [OF Some] by (simp add: result_ids_def)
  qed
qed

lemma add_missing_ids:
  "result_ids (add_missing df ranked_ids results pids) =
     result_ids results @ filter (\<lambda>pid. pid \<notin> set ranked_ids \<and> pid \<in> table_ids df) pids"
proof (induction pids arbitrary: results)
  case Nil
  show ?case by simp
next
  case (Cons pid pids)
  show ?case
  proof (cases "lookup_product df pid")
    case None
    then have "pid \<notin> table_ids df" by (simp add: lookup_product_None_iff)
    then show ?thesis using None Cons by simp
  next
    case (Some p)
    then have "pid \<in> table_ids df" using lookup_product_Some_iff by blast
    then show ?thesis
      using Some Cons lookup_product_id [OF Some] by (simp add: result_ids_def)
  qed
qed

lemma rank_products_ids:
  assumes "model self = Some m" and "KUMO_AVAILABLE"
    and "m (ranking_query product_ids uid) = Inr (Some prediction)"
    and "CLASS prediction = Some ranked_product_ids"
  shows "result_ids (rank_products_for_user KUMO_AVAILABLE self product_ids uid) =
           filter (\<lambda>pid. pid \<in> set product_ids \<and> pid \<in> table_ids (products_df self))
             ranked_product_ids
           @ filter (\<lambda>pid. pid \<notin> set ranked_product_ids \<and> pid \<in> table_ids (products_df self))
               product_ids"
proof -
  let ?df = "products_df self"
  let ?ids = "filter (\<lambda>pid. pid \<in> set product_ids \<and> pid \<in> table_ids ?df) ranked_product_ids"
  have "filter (\<lambda>pid. pid \<notin> set ?ids \<and> pid \<in> table_ids ?df) product_ids =
        filter (\<lambda>pid. pid \<notin> set ranked_product_ids \<and> pid \<in> table_ids ?df) product_ids"
    by (rule filter_cong) auto
  moreover have "map (\<lambda>r. product_id (entry r)) (kumo_ranking ?df product_ids 0 ranked_product_ids)
                   = ?ids"
    using kumo_ranking_ids [of ?df product_ids 0 ranked_product_ids] by (simp add: result_ids_def)
  ultimately show ?thesis using assms
    by (simp add: rank_products_for_user_def Let_def add_missing_ids kumo_ranking_ids)
qed

text \<open>
  C6.  When the model is missing, the SDK is unavailable or the prediction raises, the
  ranking is the request in its own order without the ids that the products table lacks,
  each entry carrying the row of the table and the 1-based position of its id in the
  request as \<open>kumo_rank\<close>.
\<close>

theorem rank_fallback_original_order:
  assumes "model self = None \<or> \<not> KUMO_AVAILABLE
           \<or> (\<exists>m e. model self = Some m \<and> m (ranking_query product_ids uid) = Inl e)"
  shows "rank_products_for_user KUMO_AVAILABLE self product_ids uid =
           map (\<lambda>(k, pid). \<lparr>entry = the (lookup_product (products_df self) pid),
                             kumo_rank = k + 1\<rparr>)
             (filter (\<lambda>(k, pid). pid \<in> table_ids (products_df self))
                (enumerate 0 product_ids))
       \<and> result_ids (rank_products_for_user KUMO_AVAILABLE self product_ids uid) =
           filter (\<lambda>pid. pid \<in> table_ids (products_df self)) product_ids
       \<and> sorted_wrt (<)
           (map kumo_rank (rank_products_for_user KUMO_AVAILABLE self product_ids uid))
       \<and> (\<forall>r \<in> set (rank_products_for_user KUMO_AVAILABLE self product_ids uid).
             1 \<le> kumo_rank r \<and> kumo_rank r \<le> length product_ids
           \<and> product_ids ! (kumo_rank r - 1) = product_id (entry r)
           \<and> lookup_product (products_df self) (product_id (entry r)) = Some (entry r))"
proof -
  have eq: "rank_products_for_user KUMO_AVAILABLE self product_ids uid =
              fallback_ranking (products_df self) 0 product_ids"
    using assms by (rule rank_products_fallback)
  have c4: "\<forall>r \<in> set (fallback_ranking (products_df self) 0 product_ids).
             1 \<le> kumo_rank r \<and> kumo_rank r \<le> length product_ids
           \<and> product_ids ! (kumo_rank r - 1) = product_id (entry r)
           \<and> lookup_product (products_df self) (product_id (entry r)) = Some (entry r)"
  proof
    fix r
    assume "r \<in> set (fallback_ranking (products_df self) 0 product_ids)"
    from fallback_ranking_rank [OF this]
    show "1 \<le> kumo_rank r \<and> kumo_rank r \<le> length product_ids
           \<and> product_ids ! (kumo_rank r - 1) = product_id (entry r)
           \<and> lookup_product (products_df self) (product_id (entry r)) = Some (entry r)"
      by simp
  qed
  note c1 = fallback_ranking_enumerate [of "products_df self" 0 product_ids]
  note c2 = fallback_ranking_ids [of "products_df self" 0 product_ids]
  note c3 = fallback_ranking_sorted [of "products_df self" 0 product_ids]
  show ?thesis
    unfolding eq by (rule conjI [OF c1 conjI [OF c2 conjI [OF c3 c4]]])
qed

theorem rank_fallback_original_order_witness:
  "(model failing_ranker = Some failing_model
      \<and> failing_model (ranking_query [7, 9, 3] 42) = Inl (Error ''connection refused''))
   \<and> result_ids (rank_products_for_user True failing_ranker [7, 9, 3] 42) = [7, 3]
   \<and> map kumo_rank (rank_products_for_user True failing_ranker [7, 9, 3] 42) = [1, 3]"
proof -
  have h: "model failing_ranker = None \<or> \<not> True
           \<or> (\<exists>m e. model failing_ranker = Some m \<and> m (ranking_query [7, 9, 3] 42) = Inl e)"
    by (simp add: failing_ranker_def failing_model_def)
  have ids: "table_ids (products_df failing_ranker) = {3, 7}"
    by (auto simp: table_ids_def failing_ranker_def apples_def milk_def)
  have "result_ids (rank_products_for_user True failing_ranker [7, 9, 3] 42) =
          filter (\<lambda>pid. pid \<in> table_ids (products_df failing_ranker)) [7, 9, 3]"
    using rank_fallback_original_order [OF h] by (rule conjunct1 [OF conjunct2])
  then have a: "result_ids (rank_products_for_user True failing_ranker [7, 9, 3] 42) = [7, 3]"
    by (simp add: ids)
  have b: "map kumo_rank (rank_products_for_user True failing_ranker [7, 9, 3] 42) = [1, 3]"
    by (simp add: rank_products_for_user_def failing_ranker_def failing_model_def
        lookup_product_def product_rows_def apples_def milk_def)
  show ?thesis
    using a b by (simp add: failing_ranker_def failing_model_def)
qed

text \<open>
  C9, as stated, fails: the request may repeat an id.  \<open>ranked_ids\<close> is computed once before
  the second loop, so an id the model did not rank is appended once for each time the
  request names it.  Here the model ranks 3 and 11, and the request names 7 twice.
\<close>

theorem rank_duplicate_request_counterexample:
  "model apples_ranker = Some apples_model
   \<and> apples_model (ranking_query [7, 3, 7] 42) = Inr (Some apples_prediction)
   \<and> CLASS apples_prediction = Some [3, 11] \<and> distinct [3, 11 :: int]
   \<and> result_ids (rank_products_for_user True apples_ranker [7, 3, 7] 42) = [3, 7, 7]"
  by (simp add: rank_products_for_user_def apples_ranker_def apples_model_def
      apples_prediction_def result_ids_def lookup_product_def product_rows_def
      apples_def milk_def)

text \<open>
  C9, amended.  When neither the model's ranked list nor the request repeats an id, the
  output holds an entry for an id exactly when the id is in the request and in the
  products table, each such id once: first the ranked ids of the request in the model's
  order, then the unranked ids of the request in the request's order.
\<close>

theorem rank_model_each_once:
  assumes "model self = Some m" and "KUMO_AVAILABLE"
    and "m (ranking_query product_ids uid) = Inr (Some prediction)"
    and "CLASS prediction = Some ranked_product_ids"
    and "distinct ranked_product_ids" and "distinct product_ids"
  shows "result_ids (rank_products_for_user KUMO_AVAILABLE self product_ids uid) =
           filter (\<lambda>pid. pid \<in> set product_ids \<and> pid \<in> table_ids (products_df self))
             ranked_product_ids
           @ filter (\<lambda>pid. pid \<notin> set ranked_product_ids \<and> pid \<in> table_ids (products_df self))
               product_ids
       \<and> distinct (result_ids (rank_products_for_user KUMO_AVAILABLE self product_ids uid))
       \<and> set (result_ids (rank_products_for_user KUMO_AVAILABLE self product_ids uid)) =
           set product_ids \<inter> table_ids (products_df self)"
  unfolding rank_products_ids [OF assms(1-4)] using assms(5,6) by auto

theorem rank_model_each_once_witness:
  "(model apples_ranker = Some apples_model \<and> True
     \<and> apples_model (ranking_query [7, 3] 42) = Inr (Some apples_prediction)
     \<and> CLASS apples_prediction = Some [3, 11] \<and> distinct [3, 11 :: int]
     \<and> distinct [7, 3 :: int])
   \<and> result_ids (rank_products_for_user True apples_ranker [7, 3] 42) = [3, 7]"
proof -
  have h1: "model apples_ranker = Some apples_model" by (simp add: apples_ranker_def)
  have h3: "apples_model (ranking_query [7, 3] 42) = Inr (Some apples_prediction)"
    by (simp add: apples_model_def)
  have h4: "CLASS apples_prediction = Some [3, 11]" by (simp add: apples_prediction_def)
  have h5: "distinct [3, 11 :: int]" by simp
  have h6: "distinct [7, 3 :: int]" by simp
  have ids: "table_ids (products_df apples_ranker) = {3, 7}"
    by (auto simp: table_ids_def apples_ranker_def apples_def milk_def)
  show ?thesis
    using h1 h3 h4 rank_model_each_once [OF h1 TrueI h3 h4 h5 h6]
    by (simp add: ids)
qed

section \<open>Properties of the substitution rate\<close>

lemma py_round_between:
  assumes "real_of_int m \<le> y" and "y \<le> real_of_int n"
  shows "m \<le> py_round y \<and> py_round y \<le> n"
proof -
  have f: "m \<le> \<lfloor>y\<rfloor>" using assms(1) by (simp add: le_floor_iff)
  have c: "\<lceil>y\<rceil> \<le> n" using assms(2) by (simp add: ceiling_le_iff)
  have up: "y \<noteq> real_of_int \<lfloor>y\<rfloor> \<Longrightarrow> \<lfloor>y\<rfloor> + 1 \<le> n"
  proof -
    assume "y \<noteq> real_of_int \<lfloor>y\<rfloor>"
    then have "real_of_int \<lfloor>y\<rfloor> < y" using of_int_floor_le [of y] by linarith
    then have "real_of_int \<lfloor>y\<rfloor> < real_of_int n" using assms(2) by linarith
    then show ?thesis by simp
  qed
  have fn: "\<lfloor>y\<rfloor> \<le> n" using assms(2) of_int_floor_le [of y] by linarith
  show ?thesis
    using f fn up unfolding py_round_def Let_def by (auto split: if_splits)
qed

lemma round3_between:
  assumes "real_of_int m / 1000 \<le> x" and "x \<le> real_of_int n / 1000"
  shows "real_of_int m / 1000 \<le> round3 x \<and> round3 x \<le> real_of_int n / 1000"
proof -
  have "real_of_int m \<le> x * 1000" "x * 1000 \<le> real_of_int n" using assms by auto
  from py_round_between [OF this] show ?thesis by (simp add: round3_def divide_right_mono)
qed

lemma round3_three_decimals: "three_decimals (round3 x)"
  by (auto simp: three_decimals_def round3_def)

lemma uniform_between:
  assumes "unit_interval R" and "a \<le> b"
  shows "a \<le> fst (uniform R a b g) \<and> fst (uniform R a b g) \<le> b"
proof -
  obtain u g' where r: "random R g = (u, g')" by (cases "random R g")
  have u: "0 \<le> u" "u < 1" using assms(1) r unfolding unit_interval_def by (metis fst_conv)+
  have "0 \<le> (b - a) * u" using u assms(2) by simp
  moreover have "(b - a) * u \<le> (b - a) * 1" using u assms(2) by (intro mult_left_mono) auto
  ultimately show ?thesis using r by (simp add: uniform_def)
qed

lemma rounded_uniform_rate:
  assumes "unit_interval R" and "a \<le> b" and "1 / 100 \<le> a" and "b \<le> 40 / 100"
  shows "1 / 100 \<le> fst (rounded_uniform R a b g) \<and> fst (rounded_uniform R a b g) \<le> 40 / 100
         \<and> three_decimals (fst (rounded_uniform R a b g))"
proof -
  obtain x g' where r: "uniform R a b g = (x, g')" by (cases "uniform R a b g")
  have "a \<le> x \<and> x \<le> b" using uniform_between [OF assms(1,2), of g] r by simp
  then have "real_of_int 10 / 1000 \<le> x" "x \<le> real_of_int 400 / 1000" using assms(3,4) by auto
  from round3_between [OF this] show ?thesis using r round3_three_decimals
    by (simp add: rounded_uniform_def)
qed

lemma three_tiers_rate:
  assumes "unit_interval R"
    and "fst r1 \<le> snd r1" "1 / 100 \<le> fst r1" "snd r1 \<le> 40 / 100"
    and "fst r2 \<le> snd r2" "1 / 100 \<le> fst r2" "snd r2 \<le> 40 / 100"
    and "fst r3 \<le> snd r3" "1 / 100 \<le> fst r3" "snd r3 \<le> 40 / 100"
  shows "rate_ok (fst (three_tiers R t1 r1 t2 r2 r3 g))"
  unfolding three_tiers_def rate_ok_def
  using rounded_uniform_rate [OF assms(1) assms(2,3,4)]
    rounded_uniform_rate [OF assms(1) assms(5,6,7)]
    rounded_uniform_rate [OF assms(1) assms(8,9,10)]
  by (simp split: prod.splits)

lemma two_tiers_rate:
  assumes "unit_interval R"
    and "fst r1 \<le> snd r1" "1 / 100 \<le> fst r1" "snd r1 \<le> 40 / 100"
    and "fst r2 \<le> snd r2" "1 / 100 \<le> fst r2" "snd r2 \<le> 40 / 100"
  shows "rate_ok (fst (two_tiers R t1 r1 r2 g))"
  unfolding two_tiers_def rate_ok_def
  using rounded_uniform_rate [OF assms(1) assms(2,3,4)]
    rounded_uniform_rate [OF assms(1) assms(5,6,7)]
  by (simp split: prod.splits)

lemma fallback_draw_rate:
  assumes "unit_interval R"
  shows "rate_ok (fst (rounded_uniform R (1 / 100) (1 / 20) g))"
  unfolding rate_ok_def using rounded_uniform_rate [OF assms, of "1 / 100" "1 / 20" g] by simp

lemma rate_without_column_rate:
  assumes "unit_interval R"
  shows "rate_ok (fst (rate_without_column R products pid))"
  unfolding rate_without_column_def Let_def
  by (simp add: fallback_draw_rate [OF assms] three_tiers_rate [OF assms]
      two_tiers_rate [OF assms] split: option.splits)

lemma substitution_rate_body_range:
  assumes "unit_interval R" and "\<not> from_substituted_column self pid"
    and "substitution_rate_body R self pid g = Inr res"
  shows "rate_ok (fst res)"
proof (cases "order_items_df self")
  case None
  then have "res = three_tiers R 0.75 (0.01, 0.06) 0.9 (0.08, 0.15) (0.16, 0.30) (seed R pid)"
    using assms(3) by (simp add: substitution_rate_body_def)
  then show ?thesis by (simp add: three_tiers_rate [OF assms(1)])
next
  case (Some df)
  show ?thesis
  proof (cases "select_eq df ''product_id'' pid")
    case (Inl e)
    then show ?thesis using assms(3) Some by (simp add: substitution_rate_body_def)
  next
    case (Inr product_orders)
    show ?thesis
    proof (cases "rows product_orders = []")
      case True
      then have "res = three_tiers R 0.7 (0.01, 0.07) 0.9 (0.08, 0.15) (0.16, 0.35) (seed R pid)"
        using assms(3) Some Inr by (simp add: substitution_rate_body_def)
      then show ?thesis by (simp add: three_tiers_rate [OF assms(1)])
    next
      case False
      show ?thesis
      proof (cases "''substituted'' \<in> set (columns product_orders)")
        case True
        then obtain e where "column_mean product_orders ''substituted'' = Inl e"
          using assms(2) Some Inr False
          by (auto simp: from_substituted_column_def split: sum.splits)
        then show ?thesis
          using assms(3) Some Inr False True by (simp add: substitution_rate_body_def)
      next
        case no_column: False
        then have "res = rate_without_column R (products_table self) pid"
          using assms(3) Some Inr False by (simp add: substitution_rate_body_def)
        then show ?thesis by (simp add: rate_without_column_rate [OF assms(1)])
      qed
    qed
  qed
qed

lemma lcg_unit_interval: "unit_interval lcg"
  unfolding unit_interval_def lcg_def by simp

text \<open>
  C1.  The rate does not depend on the state the generator is in when the method is
  called: every branch that draws seeds the generator with the product id first, and the
  branch that does not draw reads the table only.  So a second call, which starts from the
  state the first call left, returns the same rate.
\<close>

theorem substitution_rate_deterministic:
  "fst (get_product_substitution_rate R self pid g1) =
     fst (get_product_substitution_rate R self pid g2)
   \<and> fst (get_product_substitution_rate R self pid
            (snd (get_product_substitution_rate R self pid g1))) =
       fst (get_product_substitution_rate R self pid g1)"
  by (auto simp: get_product_substitution_rate_def substitution_rate_body_def
      split: option.splits sum.splits)

text \<open>
  C10.  Whenever the rate is not the mean of a column \<open>substituted\<close> (the table is not
  loaded, has no rows of the product, lacks the column, or an exception reached the
  handler), it lies between 0.01 and 0.40 and has three decimal places, for every
  generator whose \<open>random()\<close> lies in [0, 1).
\<close>

theorem substitution_rate_range:
  assumes "unit_interval R" and "\<not> from_substituted_column self pid"
  shows "0.01 \<le> fst (get_product_substitution_rate R self pid g)
       \<and> fst (get_product_substitution_rate R self pid g) \<le> 0.40
       \<and> three_decimals (fst (get_product_substitution_rate R self pid g))"
proof (cases "substitution_rate_body R self pid g")
  case (Inl e)
  then show ?thesis
    using fallback_draw_rate [OF assms(1), of "seed R pid"]
    by (simp add: get_product_substitution_rate_def rate_ok_def)
next
  case (Inr res)
  then show ?thesis
    using substitution_rate_body_range [OF assms Inr]
    by (simp add: get_product_substitution_rate_def rate_ok_def)
qed

theorem substitution_rate_range_witness:
  "unit_interval lcg \<and> \<not> from_substituted_column demo_predictor 7
   \<and> fst (get_product_substitution_rate lcg demo_predictor 7 0) = 0.024
   \<and> 0.01 \<le> fst (get_product_substitution_rate lcg demo_predictor 7 0)
   \<and> fst (get_product_substitution_rate lcg demo_predictor 7 0) \<le> 0.40
   \<and> three_decimals (fst (get_product_substitution_rate lcg demo_predictor 7 0))"
proof -
  have h2: "\<not> from_substituted_column demo_predictor 7"
    by (simp add: from_substituted_column_def demo_predictor_def demo_order_items_def
        order_items_frame_def order_item_row_def select_eq_def)
  have v: "fst (get_product_substitution_rate lcg demo_predictor 7 0) = 0.024"
    by (simp add: get_product_substitution_rate_def substitution_rate_body_def
        demo_predictor_def demo_order_items_def order_items_frame_def order_item_row_def
        select_eq_def rate_without_column_def
        lookup_product_def product_rows_def apples_def milk_def three_tiers_def
        rounded_uniform_def uniform_def lcg_def round3_def py_round_def)
  show ?thesis
    using lcg_unit_interval h2 v substitution_rate_range [OF lcg_unit_interval h2, of 0]
    by simp
qed

section \<open>Properties of the generator's batches\<close>

lemma fallback_product_fields:
  "dict_product_id (fst (fallback_product W c pid g)) = Some (JInt pid)
   \<and> dict_category (fst (fallback_product W c pid g)) = Some (JStr c)"
  by (simp add: fallback_product_def dict_product_id_def dict_category_def split: prod.splits)

lemma fallback_loop_Suc:
  "fst (fallback_loop W c start_id i (Suc n) g) =
     fst (fallback_product W c (start_id + int i) g)
       # fst (fallback_loop W c start_id (Suc i) n
                (snd (fallback_product W c (start_id + int i) g)))"
  by (simp split: prod.splits)

lemma fallback_loop_length:
  "length (fst (fallback_loop W c start_id i n g)) = n"
proof (induction n arbitrary: i g)
  case 0
  show ?case by simp
next
  case (Suc n)
  show ?case unfolding fallback_loop_Suc using Suc by simp
qed

lemma fallback_loop_ids:
  "map dict_product_id (fst (fallback_loop W c start_id i n g)) =
     map (\<lambda>k. Some (JInt (start_id + int k))) [i..<i + n]"
proof (induction n arbitrary: i g)
  case 0
  show ?case by simp
next
  case (Suc n)
  have "[i..<i + Suc n] = i # [Suc i..<Suc i + n]" by (simp add: upt_conv_Cons)
  then show ?case
    unfolding fallback_loop_Suc using Suc [of "Suc i"] by (simp add: fallback_product_fields)
qed

lemma fallback_loop_category:
  "p \<in> set (fst (fallback_loop W c start_id i n g)) \<Longrightarrow> dict_category p = Some (JStr c)"
proof (induction n arbitrary: i g)
  case 0
  then show ?case by simp
next
  case (Suc n)
  then show ?case unfolding fallback_loop_Suc by (auto simp: fallback_product_fields)
qed

lemma base_batch_on_failure:
  assumes "fst (chat_completion W c n g) = Inl e"
  shows "generate_base_products_batch W c n start_id g =
           generate_fallback_batch W c n start_id (snd (chat_completion W c n g))"
proof -
  obtain g1 where "chat_completion W c n g = (Inl e, g1)"
    using assms by (cases "chat_completion W c n g") auto
  then show ?thesis by (simp add: generate_base_products_batch_def)
qed

text \<open>
  C7.  When the call of the completion API raises, \<open>generate_base_products_batch\<close> returns
  what \<open>generate_fallback_batch\<close> returns for the same category, batch size and starting id:
  exactly \<open>batch_size\<close> products, each of the requested category, with the ids
  \<open>start_id\<close>, \<open>start_id + 1\<close>, ..., \<open>start_id + batch_size - 1\<close> in this order.
\<close>

theorem base_batch_fallback_on_api_failure:
  assumes "fst (chat_completion W c n g) = Inl e"
  shows "generate_base_products_batch W c n start_id g =
           generate_fallback_batch W c n start_id (snd (chat_completion W c n g))
       \<and> length (fst (generate_base_products_batch W c n start_id g)) = n
       \<and> map dict_product_id (fst (generate_base_products_batch W c n start_id g)) =
           map (\<lambda>k. Some (JInt (start_id + int k))) [0..<n]
       \<and> (\<forall>p \<in> set (fst (generate_base_products_batch W c n start_id g)).
             dict_category p = Some (JStr c))"
proof -
  let ?g = "snd (chat_completion W c n g)"
  have c1: "generate_base_products_batch W c n start_id g =
              generate_fallback_batch W c n start_id ?g"
    using assms by (rule base_batch_on_failure)
  have c2: "length (fst (generate_fallback_batch W c n start_id ?g)) = n"
    by (simp add: generate_fallback_batch_def fallback_loop_length)
  have c3: "map dict_product_id (fst (generate_fallback_batch W c n start_id ?g)) =
              map (\<lambda>k. Some (JInt (start_id + int k))) [0..<n]"
    using fallback_loop_ids [of W c start_id 0 n ?g] by (simp add: generate_fallback_batch_def)
  have c4: "\<forall>p \<in> set (fst (generate_fallback_batch W c n start_id ?g)).
              dict_category p = Some (JStr c)"
    using fallback_loop_category [of _ W c start_id 0 n ?g]
    by (auto simp: generate_fallback_batch_def)
  show ?thesis
    unfolding c1 by (rule conjI [OF refl conjI [OF c2 conjI [OF c3 c4]]])
qed

theorem base_batch_fallback_on_api_failure_witness:
  "fst (chat_completion offline_env ''Dairy'' 2 5) = Inl (Error ''Connection error.'')
   \<and> length (fst (generate_base_products_batch offline_env ''Dairy'' 2 10 5)) = 2
   \<and> map dict_product_id (fst (generate_base_products_batch offline_env ''Dairy'' 2 10 5)) =
       [Some (JInt 10), Some (JInt 11)]"
proof -
  have h: "fst (chat_completion offline_env ''Dairy'' 2 5) = Inl (Error ''Connection error.'')"
    by (simp add: offline_env_def)
  note t = base_batch_fallback_on_api_failure [OF h, of 10]
  have a: "length (fst (generate_base_products_batch offline_env ''Dairy'' 2 10 5)) = 2"
    using t by blast
  have "map dict_product_id (fst (generate_base_products_batch offline_env ''Dairy'' 2 10 5)) =
          map (\<lambda>k. Some (JInt (10 + int k))) [0..<2]"
    using t by blast
  then have b: "map dict_product_id
                  (fst (generate_base_products_batch offline_env ''Dairy'' 2 10 5)) =
                [Some (JInt 10), Some (JInt 11)]"
    by (simp add: upt_rec)
  show ?thesis by (rule conjI [OF h conjI [OF a b]])
qed

section \<open>The substitution rate on generated order items\<close>

lemma uniform_draw:
  "fst (uniform R a b g) = a + (b - a) * draw R g 0
   \<and> snd (uniform R a b g) = snd (random R g)"
  by (simp add: uniform_def split: prod.splits)

lemma rounded_uniform_draw:
  "fst (rounded_uniform R a b g) = round3 (a + (b - a) * draw R g 0)"
proof -
  obtain x g' where u: "uniform R a b g = (x, g')" by (cases "uniform R a b g")
  then have "x = a + (b - a) * draw R g 0" using uniform_draw [of R a b g] by simp
  then show ?thesis using u by (simp add: rounded_uniform_def)
qed

lemma two_tiers_draw:
  "fst (two_tiers R t1 r1 r2 g) =
     (if draw R g 0 < t1 then round3 (fst r1 + (snd r1 - fst r1) * draw R g 1)
      else round3 (fst r2 + (snd r2 - fst r2) * draw R g 1))"
proof -
  obtain u1 g1 where r: "random R g = (u1, g1)" by (cases "random R g")
  have d0: "draw R g 0 = u1" using r by simp
  have d1: "draw R g 1 = draw R g1 0" using r by simp
  show ?thesis
    unfolding two_tiers_def r d0 d1 by (simp add: rounded_uniform_draw)
qed

lemma three_tiers_draw:
  "fst (three_tiers R t1 r1 t2 r2 r3 g) =
     (if draw R g 0 < t1 then round3 (fst r1 + (snd r1 - fst r1) * draw R g 1)
      else if draw R g 1 < t2 then round3 (fst r2 + (snd r2 - fst r2) * draw R g 2)
      else round3 (fst r3 + (snd r3 - fst r3) * draw R g 2))"
proof -
  obtain u1 g1 where r1: "random R g = (u1, g1)" by (cases "random R g")
  obtain u2 g2 where r2: "random R g1 = (u2, g2)" by (cases "random R g1")
  have d0: "draw R g 0 = u1" using r1 by simp
  have d1: "draw R g 1 = draw R g1 0" using r1 by simp
  have d1': "draw R g1 0 = u2" using r2 by simp
  have "draw R g 2 = draw R g1 1" using r1 by (simp add: numeral_2_eq_2)
  then have d2: "draw R g 2 = draw R g2 0" using r2 by simp
  show ?thesis
    unfolding three_tiers_def r1 d0 d1 d2
    by (simp add: r2 d1' rounded_uniform_draw)
qed

lemma rate_without_column_draw:
  "fst (rate_without_column R products pid) =
     (case (case products of None \<Rightarrow> None | Some df \<Rightarrow> lookup_product df pid) of
        None \<Rightarrow> round3 (0.01 + (0.05 - 0.01) * draw R (seed R pid) 0)
      | Some product_row \<Rightarrow>
          if price_per_unit product_row > 10 then
            (if draw R (seed R pid) 0 < 0.8
             then round3 (0.01 + (0.06 - 0.01) * draw R (seed R pid) 1)
             else round3 (0.07 + (0.12 - 0.07) * draw R (seed R pid) 1))
          else if price_per_unit product_row > 5 then
            (if draw R (seed R pid) 0 < 0.6
             then round3 (0.01 + (0.07 - 0.01) * draw R (seed R pid) 1)
             else if draw R (seed R pid) 1 < 0.85
             then round3 (0.08 + (0.18 - 0.08) * draw R (seed R pid) 2)
             else round3 (0.19 + (0.30 - 0.19) * draw R (seed R pid) 2))
          else
            (if draw R (seed R pid) 0 < 0.5
             then round3 (0.01 + (0.07 - 0.01) * draw R (seed R pid) 1)
             else if draw R (seed R pid) 1 < 0.75
             then round3 (0.08 + (0.20 - 0.08) * draw R (seed R pid) 2)
             else round3 (0.21 + (0.40 - 0.21) * draw R (seed R pid) 2)))"
  unfolding rate_without_column_def Let_def
  by (simp add: rounded_uniform_draw two_tiers_draw three_tiers_draw split: option.splits)

text \<open>
  C8.  The generator writes the column \<open>was_substituted\<close> and no column \<open>substituted\<close>.  For
  every loaded order\_items table without a column \<open>substituted\<close> that has rows of the
  product, the rate is not the mean of such a column.  It is a number drawn after the
  generator has been seeded with the product id: with \<open>d 0\<close>, \<open>d 1\<close>, \<open>d 2\<close> the first three
  numbers that the generator yields from the seed, the rate is \<open>lo + (hi - lo) * d k\<close>
  rounded to three decimals, where the price of the product's row and the earlier draws
  select the interval from \<open>lo\<close> to \<open>hi\<close> as the source's branches do; nothing of the order
  items enters.
\<close>

theorem no_substituted_column_seeded_rate:
  "''substituted'' \<notin> set (columns (order_items_frame order_items))
   \<and> (order_items_df self = Some df \<and> ''substituted'' \<notin> set (columns df)
        \<and> select_eq df ''product_id'' pid = Inr product_orders \<and> rows product_orders \<noteq> []
      \<longrightarrow> \<not> from_substituted_column self pid
          \<and> fst (get_product_substitution_rate R self pid g) =
              (case (case products_table self of
                       None \<Rightarrow> None | Some products \<Rightarrow> lookup_product products pid) of
                 None \<Rightarrow> round3 (0.01 + (0.05 - 0.01) * draw R (seed R pid) 0)
               | Some product_row \<Rightarrow>
                   if price_per_unit product_row > 10 then
                     (if draw R (seed R pid) 0 < 0.8
                      then round3 (0.01 + (0.06 - 0.01) * draw R (seed R pid) 1)
                      else round3 (0.07 + (0.12 - 0.07) * draw R (seed R pid) 1))
                   else if price_per_unit product_row > 5 then
                     (if draw R (seed R pid) 0 < 0.6
                      then round3 (0.01 + (0.07 - 0.01) * draw R (seed R pid) 1)
                      else if draw R (seed R pid) 1 < 0.85
                      then round3 (0.08 + (0.18 - 0.08) * draw R (seed R pid) 2)
                      else round3 (0.19 + (0.30 - 0.19) * draw R (seed R pid) 2))
                   else
                     (if draw R (seed R pid) 0 < 0.5
                      then round3 (0.01 + (0.07 - 0.01) * draw R (seed R pid) 1)
                      else if draw R (seed R pid) 1 < 0.75
                      then round3 (0.08 + (0.20 - 0.08) * draw R (seed R pid) 2)
                      else round3 (0.21 + (0.40 - 0.21) * draw R (seed R pid) 2))))"
proof -
  have c1: "''substituted'' \<notin> set (columns (order_items_frame order_items))"
    by (simp add: order_items_frame_def)
  have c2: "\<not> from_substituted_column self pid
          \<and> get_product_substitution_rate R self pid g =
              rate_without_column R (products_table self) pid"
    if h: "order_items_df self = Some df \<and> ''substituted'' \<notin> set (columns df)
        \<and> select_eq df ''product_id'' pid = Inr product_orders \<and> rows product_orders \<noteq> []"
  proof -
    have cols: "columns product_orders = columns df"
      using h by (auto simp: select_eq_def split: if_splits)
    show ?thesis
      using h cols
      by (simp add: from_substituted_column_def get_product_substitution_rate_def
          substitution_rate_body_def)
  qed
  show ?thesis
    using c1 c2 rate_without_column_draw [of R "products_table self" pid] by metis
qed

theorem no_substituted_column_seeded_rate_witness:
  "(order_items_df demo_predictor = Some demo_order_items
      \<and> ''substituted'' \<notin> set (columns demo_order_items)
      \<and> select_eq demo_order_items ''product_id'' 7 = Inr demo_order_items
      \<and> rows demo_order_items \<noteq> [])
   \<and> \<not> from_substituted_column demo_predictor 7
   \<and> draw lcg (seed lcg 7) 0 = 0.154 \<and> draw lcg (seed lcg 7) 1 = 0.241
   \<and> fst (get_product_substitution_rate lcg demo_predictor 7 0) = 0.024"
proof -
  have h: "order_items_df demo_predictor = Some demo_order_items
      \<and> ''substituted'' \<notin> set (columns demo_order_items)
      \<and> select_eq demo_order_items ''product_id'' 7 = Inr demo_order_items
      \<and> rows demo_order_items \<noteq> []"
    by (simp add: demo_predictor_def demo_order_items_def order_items_frame_def
        order_item_row_def select_eq_def)
  have d0: "draw lcg (seed lcg 7) 0 = 0.154" by (simp add: lcg_def)
  have d1: "draw lcg (seed lcg 7) 1 = 0.241" by (simp add: lcg_def)
  have row: "(case products_table demo_predictor of
                None \<Rightarrow> None | Some products \<Rightarrow> lookup_product products 7) = Some milk"
    by (simp add: demo_predictor_def lookup_product_def product_rows_def apples_def milk_def)
  have price: "price_per_unit milk = 4" by (simp add: milk_def)
  have "fst (get_product_substitution_rate lcg demo_predictor 7 0) = 0.024"
    using h no_substituted_column_seeded_rate
      [of "[]" demo_predictor demo_order_items 7 demo_order_items lcg 0]
    unfolding row d0 d1 by (simp add: price round3_def py_round_def)
  moreover have "\<not> from_substituted_column demo_predictor 7"
    using h no_substituted_column_seeded_rate
      [of "[]" demo_predictor demo_order_items 7 demo_order_items lcg 0]
    by blast
  ultimately show ?thesis using h d0 d1 by blast
qed

section \<open>Properties of the predictions and of the entry points\<close>

lemma cart_fallback:
  assumes "model self = Some m"
    and "m (products_query (min n (number_of_products m uid)) uid) = Inl e"
  shows "predict_cart_items K self uid n = fallback_predictions self uid n"
  using assms by (simp add: predict_cart_items_def cart_from_model_def)

lemma recommendations_fallback:
  assumes "model self = Some m" and "m (recommendations_query n uid) = Inl e"
  shows "predict_recommendations K self uid n = fallback_recommendations self uid n"
  using assms by (simp add: predict_recommendations_def recommendations_from_model_def)

lemma delivery_fallback:
  assumes "model self = Some m" and "m (delivery_query n uid) = Inl e"
  shows "predict_delivery_times to_int K c self uid n tz =
           fallback_delivery_times to_int c uid n tz"
  using assms by (simp add: predict_delivery_times_def)

lemma quantity_default:
  assumes "m (quantity_query uid) = Inl e"
  shows "number_of_products m uid = 20"
  using assms by (simp add: number_of_products_def)

lemma cart_after_quantity_failure:
  assumes "model self = Some m" and "m (quantity_query uid) = Inl e"
  shows "predict_cart_items True self uid n =
           (case cart_from_model self m uid n 20 of
              Inr predictions \<Rightarrow> predictions
            | Inl e' \<Rightarrow> fallback_predictions self uid n)"
  using assms by (simp add: predict_cart_items_def quantity_default)

lemma cart_entries_loaded:
  assumes "products_table self = Some df"
  shows "\<exists>entries. cart_entries self ids = Inr entries
           \<and> prediction_ids entries = filter (\<lambda>pid. pid \<in> table_ids df) ids
           \<and> (\<forall>p \<in> set entries. confidence p = 0.95)"
proof (induction ids)
  case Nil
  show ?case by (simp add: prediction_ids_def)
next
  case (Cons pid ids)
  then obtain rest where rest: "cart_entries self ids = Inr rest"
    "prediction_ids rest = filter (\<lambda>pid. pid \<in> table_ids df) ids"
    "\<forall>p \<in> set rest. confidence p = 0.95" by blast
  show ?case
  proof (cases "lookup_product df pid")
    case None
    then have "pid \<notin> table_ids df" by (simp add: lookup_product_None_iff)
    then show ?thesis using None rest assms by simp
  next
    case (Some p)
    then have "pid \<in> table_ids df" using lookup_product_Some_iff by blast
    then show ?thesis
      using Some rest assms lookup_product_id [OF Some] by (simp add: prediction_ids_def)
  qed
qed

lemma cart_from_ranking:
  assumes "model self = Some m" and "m (quantity_query uid) = Inl e"
    and "m (products_query (min n 20) uid) = Inr (Some ranking)"
    and "CLASS ranking = Some ids" and "products_table self = Some df"
  shows "prediction_ids (predict_cart_items True self uid n) =
           filter (\<lambda>pid. pid \<in> table_ids df) ids
       \<and> (\<forall>p \<in> set (predict_cart_items True self uid n). confidence p = 0.95)"
proof -
  obtain entries where entries: "cart_entries self ids = Inr entries"
    "prediction_ids entries = filter (\<lambda>pid. pid \<in> table_ids df) ids"
    "\<forall>p \<in> set entries. confidence p = 0.95"
    using cart_entries_loaded [OF assms(5)] by blast
  have "cart_from_model self m uid n 20 = Inr entries"
    using assms(3,4) entries(1) by (simp add: cart_from_model_def)
  then have "predict_cart_items True self uid n = entries"
    using cart_after_quantity_failure [OF assms(1,2)] by simp
  then show ?thesis using entries by simp
qed



lemma int_at_42: "int_at_42 ''42'' = Some 42"
  by (simp add: int_at_42_def)

text \<open>
  C2, as stated, fails for \<open>predict_cart_items\<close>: its first call of the model, the quantity
  query, sits in a \<open>try\<close> of its own whose bare \<open>except\<close> sets the number of products to
  20.  Here that call raises and the ranking query answers: the method returns the
  model's prediction (confidence 0.95), not the fallback's entries (confidence 0.7).
\<close>

theorem quantity_failure_counterexample:
  "model cart_predictor = Some quantity_failing_model
   \<and> quantity_failing_model (quantity_query 42) = Inl (Error ''Request timed out'')
   \<and> map confidence (predict_cart_items True cart_predictor 42 5) = [0.95]
   \<and> map confidence (fallback_predictions cart_predictor 42 5) = [0.7, 0.7]"
  by (simp add: quantity_failing_model_def quantity_query_def predict_cart_items_def
      cart_predictor_def cart_from_model_def number_of_products_def products_query_def
      apples_prediction_def lookup_product_def product_rows_def apples_def milk_def
      fallback_predictions_def lookup_user_def shopper_def sort_by_price_def
      suitable_products_def head_def Let_def)

text \<open>
  C2, amended.  When the ranking query of \<open>predict_cart_items\<close>, the query of
  \<open>predict_recommendations\<close> or the query of \<open>predict_delivery_times\<close> raises, the method
  returns what its fallback heuristic returns.  When the quantity query of
  \<open>predict_cart_items\<close> raises, the method does not fall back for that: it goes on with
  20 as the number of products and returns what the rest of the \<open>try\<close> gives for that
  number, so that, if the ranking query for the top \<open>min(num_predictions, 20)\<close> answers
  with a list of ids and the products table is loaded, it returns the model's entries:
  the ranked ids that have a row, in the model's order, each with confidence 0.95.
\<close>

theorem model_failure_gives_fallback:
  assumes "model self = Some m"
  shows "(m (products_query (min n (number_of_products m uid)) uid) = Inl e \<longrightarrow>
            predict_cart_items K self uid n = fallback_predictions self uid n)
       \<and> (m (recommendations_query n uid) = Inl e \<longrightarrow>
            predict_recommendations K self uid n = fallback_recommendations self uid n)
       \<and> (m (delivery_query n uid) = Inl e \<longrightarrow>
            predict_delivery_times to_int K c self uid n tz =
              fallback_delivery_times to_int c uid n tz)
       \<and> (m (quantity_query uid) = Inl e \<longrightarrow>
            number_of_products m uid = 20
            \<and> predict_cart_items True self uid n =
                (case cart_from_model self m uid n 20 of
                   Inr predictions \<Rightarrow> predictions
                 | Inl e' \<Rightarrow> fallback_predictions self uid n))
       \<and> (m (quantity_query uid) = Inl e
            \<and> m (products_query (min n 20) uid) = Inr (Some ranking)
            \<and> CLASS ranking = Some ids \<and> products_table self = Some df \<longrightarrow>
            prediction_ids (predict_cart_items True self uid n) =
              filter (\<lambda>pid. pid \<in> table_ids df) ids
            \<and> (\<forall>p \<in> set (predict_cart_items True self uid n). confidence p = 0.95))"
proof -
  note c1 = cart_fallback [OF assms, of n uid e K]
  note c2 = recommendations_fallback [OF assms, of n uid e K]
  note c3 = delivery_fallback [OF assms, of n uid e to_int K c tz]
  note c4 = quantity_default [of m uid e] cart_after_quantity_failure [OF assms, of uid e n]
  note c5 = cart_from_ranking [OF assms, of uid e n ranking ids df]
  show ?thesis using c1 c2 c3 c4 c5 by blast
qed

theorem model_failure_gives_fallback_witness:
  "(model offline_predictor = Some failing_model
     \<and> failing_model (products_query (min 5 (number_of_products failing_model 42)) 42) =
         Inl (Error ''connection refused'')
     \<and> failing_model (recommendations_query 5 42) = Inl (Error ''connection refused'')
     \<and> failing_model (delivery_query 5 42) = Inl (Error ''connection refused'')
     \<and> predict_cart_items True offline_predictor 42 5 =
         fallback_predictions offline_predictor 42 5
     \<and> predict_recommendations True offline_predictor 42 5 =
         fallback_recommendations offline_predictor 42 5
     \<and> predict_delivery_times int_at_42 True noon offline_predictor 42 5 ''UTC'' =
         fallback_delivery_times int_at_42 noon 42 5 ''UTC'')
   \<and> (model cart_predictor = Some quantity_failing_model
     \<and> quantity_failing_model (quantity_query 42) = Inl (Error ''Request timed out'')
     \<and> quantity_failing_model (products_query (min 5 20) 42) = Inr (Some apples_prediction)
     \<and> CLASS apples_prediction = Some [3, 11]
     \<and> products_table cart_predictor = Some [apples, milk]
     \<and> number_of_products quantity_failing_model 42 = 20
     \<and> prediction_ids (predict_cart_items True cart_predictor 42 5) = [3]
     \<and> map confidence (predict_cart_items True cart_predictor 42 5) = [0.95])"
proof -
  have h: "model offline_predictor = Some failing_model"
    by (simp add: offline_predictor_def)
  have q: "\<And>query. failing_model query = Inl (Error ''connection refused'')"
    by (simp add: failing_model_def)
  have first: "model offline_predictor = Some failing_model
     \<and> failing_model (products_query (min 5 (number_of_products failing_model 42)) 42) =
         Inl (Error ''connection refused'')
     \<and> failing_model (recommendations_query 5 42) = Inl (Error ''connection refused'')
     \<and> failing_model (delivery_query 5 42) = Inl (Error ''connection refused'')
     \<and> predict_cart_items True offline_predictor 42 5 =
         fallback_predictions offline_predictor 42 5
     \<and> predict_recommendations True offline_predictor 42 5 =
         fallback_recommendations offline_predictor 42 5
     \<and> predict_delivery_times int_at_42 True noon offline_predictor 42 5 ''UTC'' =
         fallback_delivery_times int_at_42 noon 42 5 ''UTC''"
    using h q
      model_failure_gives_fallback
        [OF h, of 5 42 "Error ''connection refused''" True int_at_42 noon "''UTC''"]
    by simp
  have h': "model cart_predictor = Some quantity_failing_model"
    by (simp add: cart_predictor_def)
  have q1: "quantity_failing_model (quantity_query 42) = Inl (Error ''Request timed out'')"
    by (simp add: quantity_failing_model_def quantity_query_def)
  have q2: "quantity_failing_model (products_query (min 5 20) 42) =
              Inr (Some apples_prediction)"
    by (simp add: quantity_failing_model_def products_query_def)
  have cl: "CLASS apples_prediction = Some [3, 11]" by (simp add: apples_prediction_def)
  have pt: "products_table cart_predictor = Some [apples, milk]"
    by (simp add: cart_predictor_def)
  have ids: "table_ids [apples, milk] = {3, 7}"
    by (auto simp: table_ids_def apples_def milk_def)
  note t = model_failure_gives_fallback
      [OF h', of 5 42 "Error ''Request timed out''" True int_at_42 noon "''UTC''"
         apples_prediction "[3, 11]" "[apples, milk]"]
  have n20: "number_of_products quantity_failing_model 42 = 20" using t q1 by blast
  have "prediction_ids (predict_cart_items True cart_predictor 42 5) =
          filter (\<lambda>pid. pid \<in> table_ids [apples, milk]) [3, 11]
        \<and> (\<forall>p \<in> set (predict_cart_items True cart_predictor 42 5). confidence p = 0.95)"
    using t q1 q2 cl pt by blast
  then have second: "prediction_ids (predict_cart_items True cart_predictor 42 5) = [3]"
    and conf: "\<forall>p \<in> set (predict_cart_items True cart_predictor 42 5). confidence p = 0.95"
    by (simp_all add: ids)
  obtain p where single: "predict_cart_items True cart_predictor 42 5 = [p]"
    using second by (auto simp: prediction_ids_def)
  then have "confidence p = 0.95" using conf by simp
  then have third: "map confidence (predict_cart_items True cart_predictor 42 5) = [0.95]"
    using single by simp
  show ?thesis using first h' q1 q2 cl pt n20 second third by blast
qed




text \<open>
  C4 does not hold of \<open>kumo_predictions.py\<close>: its usage message and its message for an
  unknown prediction type are printed without \<open>file=sys.stderr\<close>, so they are written to
  standard output, where they are not JSON.  The ingredients script writes its usage
  message to standard error.
\<close>

theorem usage_message_on_stdout:
  "main_predictions env [''kumo_predictions.py''] g =
     \<lparr>stdout = [Text usage_predictions], stderr = [], exit_status = 1\<rparr>
   \<and> \<not> list_all is_json (stdout (main_predictions env [''kumo_predictions.py''] g))
   \<and> main_predictions demo_env [''kumo_predictions.py'', ''bogus'', ''42''] 0 =
       \<lparr>stdout = [Text invalid_prediction_type], stderr = [], exit_status = 1\<rparr>
   \<and> main_ingredients env [''kumo_personalized_ingredients.py''] =
       \<lparr>stdout = [], stderr = [usage_ingredients], exit_status = 1\<rparr>"
  by (simp add: main_predictions_def main_ingredients_def demo_env_def parse_args_def
      int_at_42)

section \<open>Product ids of the generated catalogue\<close>

text \<open>
  C5 does not hold of the generator: product ids can repeat.  In
  \<open>generate_base_products_batch\<close> the id of a valid product is \<open>start_id\<close> plus its index
  among all products of the answer, while \<open>generate_products_via_api\<close> advances its counter
  by the number of valid products.  Here the first product of the first answer lacks the
  key \<open>brand\<close>: the one valid product gets id 2, the counter becomes 2, and the similar
  product made from it gets id 2 as well.
\<close>

theorem duplicate_product_ids:
  "map dict_product_id
     (take 3 (fst (fst (generate_products_via_api flawed_env 2 2 0.6 0.4 0)))) =
     [Some (JInt 2), Some (JInt 2), Some (JInt 3)]
   \<and> \<not> distinct (map dict_product_id
                    (fst (fst (generate_products_via_api flawed_env 2 2 0.6 0.4 0))))"
proof -
  let ?products = "fst (fst (generate_products_via_api flawed_env 2 2 0.6 0.4 0))"
  have ids: "map dict_product_id (take 3 ?products) =
               [Some (JInt 2), Some (JInt 2), Some (JInt 3)]"
    by code_simp
  then have "\<not> distinct (take 3 (map dict_product_id ?products))"
    by (simp add: take_map)
  then have "\<not> distinct (map dict_product_id ?products)"
    using distinct_take by blast
  with ids show ?thesis by simp
qed

end
